theory Spec2Isabelle
  imports Complex_Main "HOL-Library.Log_Nat"
begin

section \<open>Python values\<close>

subsection \<open>Floats\<close>

text \<open>
  A Python \<^verbatim>\<open>float\<close> is an IEEE 754 binary64 number. A finite one is kept as the
  rational number it denotes; the two zeros are not told apart (nothing in this program does:
  comparisons treat them as equal and no division has a zero divisor that returns). Every
  arithmetic operation computes the exact rational result and rounds it to the nearest
  binary64 number, ties to even, overflowing to an infinity.
\<close>

datatype float = Fin rat | PInf | NInf | NaN

datatype error = OverflowError | ZeroDivisionError | ValueError

definition ilog2 :: "rat \<Rightarrow> int" where
  \<comment> \<open>for \<open>0 < q\<close>: the exponent \<open>e\<close> with \<open>2^e \<le> q < 2^(e+1)\<close>\<close>
  "ilog2 q = (if 1 \<le> q then int (floorlog 2 (nat \<lfloor>q\<rfloor>)) - 1
              else - int (floorlog 2 (nat (\<lceil>1 / q\<rceil> - 1))))"

definition round_half_even :: "rat \<Rightarrow> int" where
  "round_half_even x = (let f = \<lfloor>x\<rfloor>; d = x - of_int f in
      if d < 1/2 then f else if 1/2 < d then f + 1 else if even f then f else f + 1)"

definition round_magnitude :: "rat \<Rightarrow> rat" where
  \<comment> \<open>a positive rational rounded to 53 significant bits, ties to even; the least exponent
      is -1022, below which the spacing stays \<open>2^-1074\<close>\<close>
  "round_magnitude a =
     (let e = max (ilog2 a) (- 1022); u = 2 powi (e - 52)
      in of_int (round_half_even (a / u)) * u)"

definition rnd :: "rat \<Rightarrow> float" where
  \<comment> \<open>round to the nearest binary64 number; overflow at \<open>2^1024\<close>\<close>
  "rnd q = (if q = 0 then Fin 0 else
     let r = round_magnitude \<bar>q\<bar>
     in if 2 powi 1024 \<le> r then (if 0 < q then PInf else NInf)
        else Fin (if 0 < q then r else - r))"

definition lit :: "rat \<Rightarrow> float" where
  \<comment> \<open>a decimal literal of the source, such as \<^verbatim>\<open>0.45\<close>: the nearest binary64 number\<close>
  "lit q = rnd q"

fun fneg :: "float \<Rightarrow> float" where
  "fneg (Fin x) = Fin (- x)"
| "fneg PInf = NInf"
| "fneg NInf = PInf"
| "fneg NaN = NaN"

fun fabs :: "float \<Rightarrow> float" where
  "fabs (Fin x) = Fin \<bar>x\<bar>"
| "fabs PInf = PInf"
| "fabs NInf = PInf"
| "fabs NaN = NaN"

fun fadd :: "float \<Rightarrow> float \<Rightarrow> float" where
  "fadd (Fin x) (Fin y) = rnd (x + y)"
| "fadd NaN y = NaN"
| "fadd x NaN = NaN"
| "fadd PInf NInf = NaN"
| "fadd NInf PInf = NaN"
| "fadd PInf y = PInf"
| "fadd NInf y = NInf"
| "fadd (Fin x) PInf = PInf"
| "fadd (Fin x) NInf = NInf"

definition fsub :: "float \<Rightarrow> float \<Rightarrow> float" where
  "fsub x y = fadd x (fneg y)"

fun inf_times :: "float \<Rightarrow> rat \<Rightarrow> float" where
  \<comment> \<open>an infinity times a finite number\<close>
  "inf_times i x = (if x = 0 then NaN else if 0 < x then i else fneg i)"

fun fmul :: "float \<Rightarrow> float \<Rightarrow> float" where
  "fmul (Fin x) (Fin y) = rnd (x * y)"
| "fmul NaN y = NaN"
| "fmul x NaN = NaN"
| "fmul (Fin x) PInf = inf_times PInf x"
| "fmul (Fin x) NInf = inf_times NInf x"
| "fmul PInf (Fin y) = inf_times PInf y"
| "fmul NInf (Fin y) = inf_times NInf y"
| "fmul PInf PInf = PInf"
| "fmul PInf NInf = NInf"
| "fmul NInf PInf = NInf"
| "fmul NInf NInf = PInf"

fun fdiv :: "float \<Rightarrow> float \<Rightarrow> error + float" where
  \<comment> \<open>\<^verbatim>\<open>x / y\<close>: a zero divisor raises, whatever the dividend\<close>
  "fdiv x (Fin y) =
     (if y = 0 then Inl ZeroDivisionError
      else case x of
             Fin a \<Rightarrow> Inr (rnd (a / y))
           | NaN \<Rightarrow> Inr NaN
           | i \<Rightarrow> Inr (if 0 < y then i else fneg i))"
| "fdiv x NaN = Inr NaN"
| "fdiv (Fin a) y = Inr (Fin 0)"
| "fdiv x y = Inr NaN"

text \<open>Comparisons: every comparison with a NaN is false.\<close>

fun flt :: "float \<Rightarrow> float \<Rightarrow> bool" where
  "flt (Fin x) (Fin y) = (x < y)"
| "flt NaN y = False"
| "flt x NaN = False"
| "flt x NInf = False"
| "flt PInf y = False"
| "flt NInf y = True"
| "flt (Fin x) PInf = True"

definition fgt :: "float \<Rightarrow> float \<Rightarrow> bool" where
  "fgt x y = flt y x"

definition feq :: "float \<Rightarrow> float \<Rightarrow> bool" where
  "feq x y = (x \<noteq> NaN \<and> x = y)"

definition fle :: "float \<Rightarrow> float \<Rightarrow> bool" where
  "fle x y = (flt x y \<or> feq x y)"

definition fge :: "float \<Rightarrow> float \<Rightarrow> bool" where
  "fge x y = fle y x"

definition pymax :: "float \<Rightarrow> float \<Rightarrow> float" where
  \<comment> \<open>the builtin \<^verbatim>\<open>max(a, b)\<close>: the first argument unless the second is greater\<close>
  "pymax a b = (if fgt b a then b else a)"

definition pymin :: "float \<Rightarrow> float \<Rightarrow> float" where
  \<comment> \<open>the builtin \<^verbatim>\<open>min(a, b)\<close>: the first argument unless the second is smaller\<close>
  "pymin a b = (if flt b a then b else a)"

fun round4 :: "float \<Rightarrow> float" where
  \<comment> \<open>\<^verbatim>\<open>round(x, 4)\<close>: the exact value of \<open>x\<close> rounded to 4 decimal places, ties to
      even, then the nearest binary64 number to that decimal; NaN and infinities are kept\<close>
  "round4 (Fin x) = rnd (of_int (round_half_even (x * 10 ^ 4)) / 10 ^ 4)"
| "round4 x = x"

definition float_of_int :: "int \<Rightarrow> error + float" where
  \<comment> \<open>the conversion of an int operand in mixed arithmetic; it raises beyond the float range\<close>
  "float_of_int n = (case rnd (of_int n) of Fin q \<Rightarrow> Inr (Fin q) | _ \<Rightarrow> Inl OverflowError)"

definition finite_or_overflow :: "float \<Rightarrow> error + float" where
  "finite_or_overflow x = (case x of Fin q \<Rightarrow> Inr (Fin q) | _ \<Rightarrow> Inl OverflowError)"

fun pow_float :: "float \<Rightarrow> float \<Rightarrow> error + float" where
  \<comment> \<open>\<^verbatim>\<open>x ** y\<close> for a finite integer-valued \<open>y\<close> (the only exponents this program has, each
      converted from an int); the power of a finite base is taken as correctly rounded\<close>
  "pow_float (Fin x) (Fin y) =
     (let k = \<lfloor>y\<rfloor> in
      if 0 \<le> k then finite_or_overflow (rnd (x ^ nat k))
      else if x = 0 then Inl ZeroDivisionError
      else finite_or_overflow (rnd (1 / x ^ nat (- k))))"
| "pow_float NaN (Fin y) = Inr (if y = 0 then Fin 1 else NaN)"
| "pow_float PInf (Fin y) = Inr (if y = 0 then Fin 1 else if 0 < y then PInf else Fin 0)"
| "pow_float NInf (Fin y) =
     Inr (if y = 0 then Fin 1 else if y < 0 then Fin 0 else if even \<lfloor>y\<rfloor> then PInf else NInf)"
| "pow_float x y = Inr NaN"

definition fpow :: "float \<Rightarrow> int \<Rightarrow> error + float" where
  \<comment> \<open>\<^verbatim>\<open>b ** n\<close> with a float base and an int exponent\<close>
  "fpow b n = (case float_of_int n of Inl e \<Rightarrow> Inl e | Inr y \<Rightarrow> pow_float b y)"

subsection \<open>Strings\<close>

text \<open>
  A \<^verbatim>\<open>str\<close> is a list of Unicode code points. The fixed texts the program returns are
  ASCII and are kept as HOL strings.
\<close>

type_synonym str = "nat list"

definition ustr :: "string \<Rightarrow> str" where
  "ustr s = map of_char s"

fun digits :: "nat \<Rightarrow> string" where
  "digits n = (if n < 10 then [''0123456789'' ! n]
               else digits (n div 10) @ [''0123456789'' ! (n mod 10)])"

definition str_int :: "int \<Rightarrow> string" where
  \<comment> \<open>\<^verbatim>\<open>str(i)\<close>, as an f-string formats an int\<close>
  "str_int i = (if i < 0 then CHR ''-'' # digits (nat (- i)) else digits (nat i))"

fun startswith :: "str \<Rightarrow> str \<Rightarrow> bool" where
  "startswith s [] = True"
| "startswith [] (c # p) = False"
| "startswith (x # s) (c # p) = (x = c \<and> startswith s p)"

fun contains :: "str \<Rightarrow> str \<Rightarrow> bool" where
  \<comment> \<open>\<^verbatim>\<open>p in s\<close>\<close>
  "contains [] p = (p = [])"
| "contains (x # s) p = (startswith (x # s) p \<or> contains s p)"

definition lower_char :: "nat \<Rightarrow> str" where
  "lower_char c =
     (if 65 \<le> c \<and> c \<le> 90 then [c + 32]
      else if c = 304 then [105, 775]
      else if c = 8490 then [107]
      else [c])"

definition lower :: "str \<Rightarrow> str" where
  \<comment> \<open>\<^verbatim>\<open>s.lower()\<close>, up to what this program can observe: ASCII letters, and the only two
      other characters whose lowercase form contains an ASCII character (U+0130, U+212A).
      Every other character stays in place; its lowercase form is not ASCII and is none of
      the emoji looked for, so no substring test below can tell the difference.\<close>
  "lower s = concat (map lower_char s)"

definition isspace :: "nat \<Rightarrow> bool" where
  "isspace c = (c \<in> set [9, 10, 11, 12, 13, 28, 29, 30, 31, 32, 133, 160, 5760, 8192, 8193,
                           8194, 8195, 8196, 8197, 8198, 8199, 8200, 8201, 8202, 8232, 8233,
                           8239, 8287, 12288])"

fun split_from :: "str \<Rightarrow> str \<Rightarrow> str list" where
  "split_from w [] = (if w = [] then [] else [w])"
| "split_from w (c # cs) =
     (if isspace c then (if w = [] then split_from [] cs else w # split_from [] cs)
      else split_from (w @ [c]) cs)"

definition split :: "str \<Rightarrow> str list" where
  \<comment> \<open>\<^verbatim>\<open>s.split()\<close>: the maximal runs of non-whitespace characters\<close>
  "split s = split_from [] s"

section \<open>Signal weights\<close>

definition FAVORITE :: float where "FAVORITE = lit 1"
definition REPLY :: float where "REPLY = lit (8/10)"
definition REPOST :: float where "REPOST = lit (75/100)"
definition QUOTE :: float where "QUOTE = lit (7/10)"
definition FOLLOW_AUTHOR :: float where "FOLLOW_AUTHOR = lit (12/10)"
definition VIDEO_VIEW :: float where "VIDEO_VIEW = lit (9/10)"
definition PROFILE_CLICK :: float where "PROFILE_CLICK = lit (5/10)"
definition SHARE :: float where "SHARE = lit (4/10)"
definition DM_SHARE :: float where "DM_SHARE = lit (5/10)"
definition LINK_COPY :: float where "LINK_COPY = lit (45/100)"
definition DWELL_TIME :: float where "DWELL_TIME = lit (3/10)"
definition PHOTO_EXPAND :: float where "PHOTO_EXPAND = lit (2/10)"
definition CONTENT_CLICK :: float where "CONTENT_CLICK = lit (15/100)"

definition NOT_INTERESTED :: float where "NOT_INTERESTED = fneg (lit (6/10))"
definition BLOCK :: float where "BLOCK = fneg (lit (15/10))"
definition MUTE :: float where "MUTE = fneg (lit (12/10))"
definition REPORT :: float where "REPORT = fneg (lit 2)"

definition VIDEO_BONUS :: float where "VIDEO_BONUS = lit (115/100)"
definition OON_PENALTY :: float where "OON_PENALTY = lit (7/10)"

definition DIVERSITY_BASE :: float where "DIVERSITY_BASE = lit (45/100)"
definition DIVERSITY_FLOOR :: float where "DIVERSITY_FLOOR = lit (10/100)"

section \<open>Data classes\<close>

record EngagementProbabilities =
  favorite :: float
  reply :: float
  repost :: float
  quote :: float
  follow_author :: float
  video_view :: float
  profile_click :: float
  share :: float
  dm_share :: float
  link_copy :: float
  dwell_time :: float
  photo_expand :: float
  content_click :: float
  not_interested :: float
  block :: float
  mute :: float
  report :: float

definition to_dict :: "EngagementProbabilities \<Rightarrow> (string \<times> float) list" where
  \<comment> \<open>the dict, in insertion order\<close>
  "to_dict probs =
     [(''favorite'', favorite probs), (''reply'', reply probs),
      (''repost'', repost probs), (''quote'', quote probs),
      (''follow_author'', follow_author probs), (''video_view'', video_view probs),
      (''profile_click'', profile_click probs), (''share'', share probs),
      (''dm_share'', dm_share probs), (''link_copy'', link_copy probs),
      (''dwell_time'', dwell_time probs), (''photo_expand'', photo_expand probs),
      (''content_click'', content_click probs),
      (''not_interested'', not_interested probs), (''block'', block probs),
      (''mute'', mute probs), (''report'', report probs)]"

record ContentModifiers =
  has_video :: bool
  is_out_of_network :: bool
  post_position :: int
  post_age_hours :: float
  has_image :: bool
  has_link :: bool
  is_reply :: bool
  is_quote :: bool

record ScoreResult =
  final_score :: float
  positive_score :: float
  negative_score :: float
  diversity_multiplier :: float
  oon_multiplier :: float
  age_multiplier :: float
  video_bonus_applied :: bool
  interpretation_str :: string  \<comment> \<open>the field \<^verbatim>\<open>interpretation\<close>\<close>
  recommendations :: "string list"

definition default_probs :: EngagementProbabilities where
  \<comment> \<open>\<^verbatim>\<open>EngagementProbabilities()\<close>\<close>
  "default_probs =
     \<lparr>favorite = lit 0, reply = lit 0, repost = lit 0, quote = lit 0, follow_author = lit 0,
      video_view = lit 0, profile_click = lit 0, share = lit 0, dm_share = lit 0,
      link_copy = lit 0, dwell_time = lit 0, photo_expand = lit 0, content_click = lit 0,
      not_interested = lit 0, block = lit 0, mute = lit 0, report = lit 0\<rparr>"

definition default_modifiers :: ContentModifiers where
  \<comment> \<open>\<^verbatim>\<open>ContentModifiers()\<close>\<close>
  "default_modifiers =
     \<lparr>has_video = False, is_out_of_network = False, post_position = 1,
      post_age_hours = lit 0, has_image = False, has_link = False, is_reply = False,
      is_quote = False\<rparr>"

section \<open>Score calculator\<close>

definition calculate_diversity_multiplier :: "int \<Rightarrow> error + float" where
  "calculate_diversity_multiplier position =
     (if position \<le> 1 then Inr (lit 1)
      else case fpow DIVERSITY_BASE (position - 1) of
             Inl e \<Rightarrow> Inl e
           | Inr multiplier \<Rightarrow> Inr (pymax DIVERSITY_FLOOR multiplier))"

definition calculate_age_multiplier :: "float \<Rightarrow> error + float" where
  "calculate_age_multiplier age_hours =
     (if fle age_hours (Fin 0) then Inr (lit 1)
      else if fge age_hours (Fin 48) then Inr (lit (1/10))
      else case fdiv age_hours (Fin 48) of
             Inl e \<Rightarrow> Inl e
           | Inr q \<Rightarrow> Inr (pymax (lit (1/10)) (fsub (Fin 1) q)))"

definition interpret_score :: "float \<Rightarrow> float \<Rightarrow> float \<Rightarrow> string" where
  "interpret_score score positive negative =
     (if flt score (lit (3/10)) then
        ''LOW REACH: Content likely to be suppressed significantly''
      else if flt score (lit (6/10)) then
        ''MODERATE-LOW REACH: Content will struggle to gain traction''
      else if flt score (lit 1) then
        ''MODERATE REACH: Content should reach some users''
      else if flt score (lit (15/10)) then
        ''GOOD REACH: Content is well-positioned in the algorithm''
      else if flt score (lit 2) then
        ''EXCELLENT REACH: Content optimized for strong distribution''
      else
        ''VIRAL POTENTIAL: Content has maximum algorithmic support'')"

definition generate_recommendations ::
  "EngagementProbabilities \<Rightarrow> ContentModifiers \<Rightarrow> float \<Rightarrow> string list" where
  "generate_recommendations probs modifiers score =
     (let recs = [];
          recs = (if fgt (block probs) (lit (5/100)) \<or> fgt (mute probs) (lit (5/100))
                     \<or> fgt (report probs) (lit (2/100))
                  then recs @ [''WARNING: High negative signal probability. Review content for controversial elements.'']
                  else recs);
          recs = (if fgt (not_interested probs) (lit (1/10))
                  then recs @ [''Consider making content more engaging or relevant to your audience.'']
                  else recs);
          recs = (if post_position modifiers > 2
                  then recs @ [''You're on post #'' @ str_int (post_position modifiers)
                               @ '' today. Consider spacing posts for better reach.'']
                  else recs);
          recs = (if is_out_of_network modifiers
                  then recs @ [''Out-of-network content receives ~30% penalty. Build your follower base.'']
                  else recs);
          recs = (if fgt (post_age_hours modifiers) (Fin 24)
                  then recs @ [''Post is aging. Content has best reach within first 24 hours.'']
                  else recs);
          recs = (if \<not> has_video modifiers \<and> feq (video_view probs) (Fin 0)
                  then recs @ [''Consider adding native video for additional algorithmic boost.'']
                  else recs);
          recs = (if flt (favorite probs) (lit (3/10))
                  then recs @ [''Low predicted likes. Focus on creating more likeable content (primary metric).'']
                  else recs);
          recs = (if flt (share probs) (lit (5/100)) \<and> flt (dm_share probs) (lit (2/100))
                  then recs @ [''Low shareability. Create content worth sharing privately.'']
                  else recs);
          recs = (if fgt score (lit (15/10)) \<and> length recs = 0
                  then recs @ [''Content is well-optimized! Continue this approach.'']
                  else recs)
      in recs)"

definition positive_contributions :: "EngagementProbabilities \<Rightarrow> float" where
  \<comment> \<open>the sum under \<^verbatim>\<open># Calculate positive contributions\<close>, added left to right\<close>
  "positive_contributions probs =
     fadd (fadd (fadd (fadd (fadd (fadd (fadd (fadd (fadd (fadd (fadd (fadd
       (fmul (favorite probs) FAVORITE)
       (fmul (reply probs) REPLY))
       (fmul (repost probs) REPOST))
       (fmul (quote probs) QUOTE))
       (fmul (follow_author probs) FOLLOW_AUTHOR))
       (fmul (video_view probs) VIDEO_VIEW))
       (fmul (profile_click probs) PROFILE_CLICK))
       (fmul (share probs) SHARE))
       (fmul (dm_share probs) DM_SHARE))
       (fmul (link_copy probs) LINK_COPY))
       (fmul (dwell_time probs) DWELL_TIME))
       (fmul (photo_expand probs) PHOTO_EXPAND))
       (fmul (content_click probs) CONTENT_CLICK)"

definition negative_contributions :: "EngagementProbabilities \<Rightarrow> float" where
  \<comment> \<open>the sum under \<^verbatim>\<open># Calculate negative contributions (absolute value)\<close>\<close>
  "negative_contributions probs =
     fadd (fadd (fadd
       (fmul (not_interested probs) (fabs NOT_INTERESTED))
       (fmul (block probs) (fabs BLOCK)))
       (fmul (mute probs) (fabs MUTE)))
       (fmul (report probs) (fabs REPORT))"

definition calculate_score ::
  "EngagementProbabilities \<Rightarrow> ContentModifiers \<Rightarrow> error + ScoreResult" where
  \<comment> \<open>the local variables carry the names of the source, shortened where a field of
      \<open>ScoreResult\<close> has the name\<close>
  "calculate_score probs modifiers =
     (let positive = positive_contributions probs;
          negative = negative_contributions probs;
          bonus_applied = (has_video modifiers \<and> fgt (video_view probs) (Fin 0));
          positive = (if bonus_applied then fmul positive VIDEO_BONUS else positive);
          raw_score = fsub positive negative
      in case calculate_diversity_multiplier (post_position modifiers) of
           Inl e \<Rightarrow> Inl e
         | Inr diversity \<Rightarrow>
             (let oon = (if is_out_of_network modifiers then OON_PENALTY else lit 1)
              in case calculate_age_multiplier (post_age_hours modifiers) of
                   Inl e \<Rightarrow> Inl e
                 | Inr age \<Rightarrow>
                     (let final = fmul (fmul (fmul raw_score diversity) oon) age;
                          interpretation = interpret_score final positive negative;
                          recs = generate_recommendations probs modifiers final
                      in Inr \<lparr>final_score = round4 final,
                               positive_score = round4 positive,
                               negative_score = round4 negative,
                               diversity_multiplier = round4 diversity,
                               oon_multiplier = round4 oon,
                               age_multiplier = round4 age,
                               video_bonus_applied = bonus_applied,
                               interpretation_str = interpretation,
                               recommendations = recs\<rparr>)))"

section \<open>Content analyzer\<close>

text \<open>
  Each pattern is a regular expression that matches exactly one literal string (the only
  special character is the escaped question mark), so \<^verbatim>\<open>re.search(pattern, text)\<close> finds a
  match exactly when that string occurs in the text. The patterns are kept as those strings.
\<close>

definition re_search :: "str \<Rightarrow> str \<Rightarrow> bool" where
  "re_search pattern text = contains text pattern"

definition QUESTION_PATTERNS :: "str list" where
  "QUESTION_PATTERNS = map ustr [''?'', ''what do you think'', ''thoughts?'', ''agree?'']"

definition CALL_TO_ACTION :: "str list" where
  "CALL_TO_ACTION = map ustr [''retweet'', ''rt if'', ''share'', ''like if'', ''follow'']"

definition CONTROVERSY_MARKERS :: "str list" where
  "CONTROVERSY_MARKERS = map ustr [''hot take'', ''unpopular opinion'', ''controversial'']"

definition POSITIVE_SENTIMENT :: "str list" where
  "POSITIVE_SENTIMENT = map ustr [''amazing'', ''incredible'', ''love'', ''best'', ''great'']"

definition NEGATIVE_TRIGGERS :: "str list" where
  "NEGATIVE_TRIGGERS = map ustr [''hate'', ''worst'', ''terrible'', ''fight me'', ''argue'']"

definition any_in :: "str list \<Rightarrow> str \<Rightarrow> bool" where
  \<comment> \<open>\<^verbatim>\<open>any(x in text for x in xs)\<close>\<close>
  "any_in xs text = list_ex (\<lambda>x. contains text x) xs"

definition clamp_unit :: "float \<Rightarrow> float" where
  \<comment> \<open>\<^verbatim>\<open>max(0.0, min(1.0, current))\<close>\<close>
  "clamp_unit current = pymax (lit 0) (pymin (lit 1) current)"

definition normalize :: "EngagementProbabilities \<Rightarrow> EngagementProbabilities" where
  \<comment> \<open>the loop under \<^verbatim>\<open># Normalize probabilities to [0, 1]\<close>, over all 17 attributes\<close>
  "normalize probs =
     \<lparr>favorite = clamp_unit (favorite probs), reply = clamp_unit (reply probs),
      repost = clamp_unit (repost probs), quote = clamp_unit (quote probs),
      follow_author = clamp_unit (follow_author probs),
      video_view = clamp_unit (video_view probs),
      profile_click = clamp_unit (profile_click probs), share = clamp_unit (share probs),
      dm_share = clamp_unit (dm_share probs), link_copy = clamp_unit (link_copy probs),
      dwell_time = clamp_unit (dwell_time probs),
      photo_expand = clamp_unit (photo_expand probs),
      content_click = clamp_unit (content_click probs),
      not_interested = clamp_unit (not_interested probs), block = clamp_unit (block probs),
      mute = clamp_unit (mute probs), report = clamp_unit (report probs)\<rparr>"

definition analyze_text :: "str \<Rightarrow> error + EngagementProbabilities \<times> ContentModifiers" where
  "analyze_text text =
     (let text_lower = lower text;
          word_count = length (split text);
          probs = default_probs;
          modifiers = default_modifiers;
          probs = probs\<lparr>favorite := lit (3/10), reply := lit (15/100), repost := lit (8/100),
                        quote := lit (4/100), profile_click := lit (12/100),
                        share := lit (5/100), dm_share := lit (2/100),
                        dwell_time := lit (25/100)\<rparr>;
          probs = (if list_ex (\<lambda>pattern. re_search pattern text_lower) QUESTION_PATTERNS
                   then probs\<lparr>reply := fadd (reply probs) (lit (15/100))\<rparr>
                   else probs);
          probs = (if list_ex (\<lambda>pattern. re_search pattern text_lower) CALL_TO_ACTION
                   then probs\<lparr>repost := fadd (repost probs) (lit (1/10)),
                                share := fadd (share probs) (lit (5/100))\<rparr>
                   else probs);
          positive_count = length (filter (\<lambda>p. re_search p text_lower) POSITIVE_SENTIMENT)
      in case float_of_int (int positive_count) of
           Inl e \<Rightarrow> Inl e
         | Inr positive_float \<Rightarrow>
     (let probs = probs\<lparr>favorite := fadd (favorite probs)
                          (pymin (lit (2/10)) (fmul positive_float (lit (5/100))))\<rparr>;
          probs = (if list_ex (\<lambda>pattern. re_search pattern text_lower) CONTROVERSY_MARKERS
                   then probs\<lparr>reply := fadd (reply probs) (lit (1/10)),
                                quote := fadd (quote probs) (lit (8/100)),
                                not_interested := fadd (not_interested probs) (lit (5/100)),
                                mute := fadd (mute probs) (lit (2/100))\<rparr>
                   else probs);
          negative_count = length (filter (\<lambda>p. re_search p text_lower) NEGATIVE_TRIGGERS)
      in case float_of_int (int negative_count) of
           Inl e \<Rightarrow> Inl e
         | Inr negative_float \<Rightarrow>
     (let probs = (if negative_count > 0
                   then probs\<lparr>block := fadd (block probs)
                                  (pymin (lit (5/100)) (fmul negative_float (lit (2/100)))),
                                mute := fadd (mute probs)
                                  (pymin (lit (8/100)) (fmul negative_float (lit (3/100)))),
                                not_interested := fadd (not_interested probs)
                                  (pymin (lit (15/100)) (fmul negative_float (lit (5/100))))\<rparr>
                   else probs);
          modifiers = (if any_in [ustr ''http'', ustr ''pic.'', ustr ''video'', [128249], [127909]]
                             text_lower
                       then modifiers\<lparr>has_link := True\<rparr> else modifiers);
          (probs, modifiers) =
            (if any_in [[128247], [128444, 65039], ustr ''photo'', ustr ''image''] text_lower
             then (probs\<lparr>photo_expand := lit (15/100)\<rparr>, modifiers\<lparr>has_image := True\<rparr>)
             else (probs, modifiers));
          (probs, modifiers) =
            (if any_in [ustr ''video'', [128249], [127909], ustr ''watch''] text_lower
             then (probs\<lparr>video_view := lit (35/100)\<rparr>, modifiers\<lparr>has_video := True\<rparr>)
             else (probs, modifiers));
          probs = (if word_count > 50
                   then probs\<lparr>dwell_time := fadd (dwell_time probs) (lit (15/100))\<rparr>
                   else if word_count < 10
                   then probs\<lparr>dwell_time := fsub (dwell_time probs) (lit (1/10))\<rparr>
                   else probs);
          modifiers = (if startswith text_lower (ustr ''@'')
                       then modifiers\<lparr>is_reply := True\<rparr> else modifiers)
      in Inr (normalize probs, modifiers))))"

section \<open>Batch analyzer\<close>

record post_result =
  post_number :: int
  text_preview :: str
  score :: float
  diversity_penalty :: float
  post_interpretation :: string  \<comment> \<open>the key \<^verbatim>\<open>"interpretation"\<close>\<close>










section \<open>The recommendation rules as the specification lists them\<close>

text \<open>
  Section 4.2, step 11 of the specification: eight rules, each a condition and the advice it
  appends, in this order; then the single well-optimized message when the score is above 1.5
  and no rule fired.
\<close>

definition recommendation_rules ::
  "EngagementProbabilities \<Rightarrow> ContentModifiers \<Rightarrow> (bool \<times> string) list" where
  "recommendation_rules probs modifiers =
     [(fgt (block probs) (lit (5/100)) \<or> fgt (mute probs) (lit (5/100))
         \<or> fgt (report probs) (lit (2/100)),
       ''WARNING: High negative signal probability. Review content for controversial elements.''),
      (fgt (not_interested probs) (lit (1/10)),
       ''Consider making content more engaging or relevant to your audience.''),
      (post_position modifiers > 2,
       ''You're on post #'' @ str_int (post_position modifiers)
         @ '' today. Consider spacing posts for better reach.''),
      (is_out_of_network modifiers,
       ''Out-of-network content receives ~30% penalty. Build your follower base.''),
      (fgt (post_age_hours modifiers) (Fin 24),
       ''Post is aging. Content has best reach within first 24 hours.''),
      (\<not> has_video modifiers \<and> feq (video_view probs) (Fin 0),
       ''Consider adding native video for additional algorithmic boost.''),
      (flt (favorite probs) (lit (3/10)),
       ''Low predicted likes. Focus on creating more likeable content (primary metric).''),
      (flt (share probs) (lit (5/100)) \<and> flt (dm_share probs) (lit (2/100)),
       ''Low shareability. Create content worth sharing privately.'')]"

definition recommendations_spec ::
  "EngagementProbabilities \<Rightarrow> ContentModifiers \<Rightarrow> float \<Rightarrow> string list" where
  "recommendations_spec probs modifiers final =
     (let fired = map snd (filter fst (recommendation_rules probs modifiers))
      in if fgt final (lit (15/10)) \<and> fired = []
         then [''Content is well-optimized! Continue this approach.'']
         else fired)"

section \<open>Rounding to binary64\<close>

text \<open>
  \<open>ilog2\<close> finds the binade of a positive rational; from that, a rounding is settled by a
  certificate (the exponent and the integer significand), without running the search.
\<close>

lemma ilog2_ge1:
  assumes "1 \<le> q"
  shows "2 powi (ilog2 q) \<le> q \<and> q < 2 powi (ilog2 q + 1)"
proof -
  define n where "n = nat \<lfloor>q\<rfloor>"
  define L where "L = floorlog 2 n"
  have npos: "0 < n" using assms by (simp add: n_def)
  have b: "2 ^ (L - 1) \<le> n \<and> n < 2 ^ L"
    unfolding L_def using floorlog_bounds[of n 2] npos by simp
  have Lpos: "0 < L" using b npos by (cases L) auto
  have e: "ilog2 q = int (L - 1)" using assms Lpos by (simp add: ilog2_def n_def L_def)
  have nq: "rat_of_nat n \<le> q" using assms by (simp add: n_def)
  have qn: "q < rat_of_nat n + 1" using assms by (simp add: n_def; linarith?)
  have "rat_of_nat (2 ^ (L - 1)) \<le> of_nat n" using b by (simp only: of_nat_le_iff)
  then have lo: "(2::rat) ^ (L - 1) \<le> of_nat n" by simp
  have "n + 1 \<le> 2 ^ L" using b by simp
  then have "rat_of_nat (n + 1) \<le> of_nat (2 ^ L)" by (simp only: of_nat_le_iff)
  then have hi: "rat_of_nat n + 1 \<le> 2 ^ L" by simp
  have e1: "ilog2 q + 1 = int L" using e Lpos by simp
  show ?thesis unfolding e1 unfolding e power_int_of_nat using lo nq qn hi by linarith
qed

lemma ilog2_lt1:
  assumes "0 < q" "q < 1"
  shows "2 powi (ilog2 q) \<le> q \<and> q < 2 powi (ilog2 q + 1)"
proof -
  define y where "y = 1 / q"
  define m where "m = nat (\<lceil>y\<rceil> - 1)"
  define L where "L = floorlog 2 m"
  have y1: "1 < y" using assms by (simp add: y_def)
  then have c2: "2 \<le> \<lceil>y\<rceil>" by linarith
  have mpos: "0 < m" using c2 by (simp add: m_def)
  have b: "2 ^ (L - 1) \<le> m \<and> m < 2 ^ L"
    unfolding L_def using floorlog_bounds[of m 2] mpos by simp
  have Lpos: "0 < L" using b mpos by (cases L) auto
  have e: "ilog2 q = - int L" using assms by (simp add: ilog2_def m_def L_def y_def)
  have my: "rat_of_nat m < y" using c2 by (simp add: m_def; linarith?)
  have ym: "y \<le> rat_of_nat m + 1" using c2 by (simp add: m_def; linarith?)
  have "rat_of_nat (2 ^ (L - 1)) \<le> of_nat m" using b by (simp only: of_nat_le_iff)
  then have lo: "(2::rat) ^ (L - 1) \<le> of_nat m" by simp
  have "m + 1 \<le> 2 ^ L" using b by simp
  then have "rat_of_nat (m + 1) \<le> of_nat (2 ^ L)" by (simp only: of_nat_le_iff)
  then have hi: "rat_of_nat m + 1 \<le> 2 ^ L" by simp
  have yL: "y \<le> 2 ^ L" using ym hi by linarith
  have Ly: "2 ^ (L - 1) < y" using lo my by linarith
  have q_eq: "q = 1 / y" using assms by (simp add: y_def)
  have ypos: "0 < y" using y1 by simp
  have A: "1 / 2 ^ L \<le> q" unfolding q_eq using yL ypos by (simp add: frac_le)
  have B: "q < 1 / 2 ^ (L - 1)" unfolding q_eq using Ly ypos by (simp add: frac_less2)
  have p1: "(2::rat) powi (- int L) = 1 / 2 ^ L" by (simp add: power_int_minus field_simps)
  have "- int L + 1 = - int (L - 1)" using Lpos by simp
  then have "(2::rat) powi (- int L + 1) = 2 powi (- int (L - 1))" by (simp only:)
  then have p2: "(2::rat) powi (- int L + 1) = 1 / 2 ^ (L - 1)"
    by (simp only: power_int_minus power_int_of_nat inverse_eq_divide)
  show ?thesis unfolding e p1 p2 using A B by simp
qed

lemma ilog2_bounds:
  assumes "0 < q"
  shows "2 powi (ilog2 q) \<le> q" and "q < 2 powi (ilog2 q + 1)"
  using ilog2_ge1[of q] ilog2_lt1[of q] assms by (cases "1 \<le> q"; simp)+

lemma powi2_less_imp: "(2::rat) powi a < 2 powi b \<Longrightarrow> a < b"
  using power_int_increasing[of b a "2::rat"] by (cases "a < b") auto

lemma ilog2_unique:
  assumes "0 < q" "2 powi e \<le> q" "q < 2 powi (e + 1)"
  shows "ilog2 q = e"
proof -
  have "(2::rat) powi (ilog2 q) < 2 powi (e + 1)" using ilog2_bounds(1)[OF assms(1)] assms(3) by simp
  then have a: "ilog2 q < e + 1" by (rule powi2_less_imp)
  have "(2::rat) powi e < 2 powi (ilog2 q + 1)" using ilog2_bounds(2)[OF assms(1)] assms(2) by simp
  then have b: "e < ilog2 q + 1" by (rule powi2_less_imp)
  show ?thesis using a b by simp
qed


lemma rhe_cert: "\<bar>x - of_int n\<bar> < 1/2 \<Longrightarrow> round_half_even x = n"
proof -
  assume a: "\<bar>x - of_int n\<bar> < 1/2"
  show ?thesis
  proof (cases "of_int n \<le> x")
    case True
    then have "\<lfloor>x\<rfloor> = n" using a by (simp add: floor_unique)
    then show ?thesis using a True by (simp add: round_half_even_def Let_def)
  next
    case False
    then have "\<lfloor>x\<rfloor> = n - 1" using a by (simp add: floor_unique)
    then show ?thesis using a False by (simp add: round_half_even_def Let_def)
  qed
qed

lemma rhe_le: "x \<le> of_int N \<Longrightarrow> round_half_even x \<le> N"
proof -
  assume a: "x \<le> of_int N"
  have f: "\<lfloor>x\<rfloor> \<le> N" using a by (simp add: floor_le_iff; linarith?)
  show ?thesis
  proof (cases "x - of_int \<lfloor>x\<rfloor> < 1/2")
    case True
    then show ?thesis using f by (simp add: round_half_even_def Let_def)
  next
    case False
    then have "of_int \<lfloor>x\<rfloor> < x" by simp
    then have "of_int \<lfloor>x\<rfloor> < (of_int N :: rat)" using a by simp
    then have "\<lfloor>x\<rfloor> < N" by simp
    then show ?thesis by (simp add: round_half_even_def Let_def)
  qed
qed

lemma rhe_nonneg: "0 \<le> x \<Longrightarrow> 0 \<le> round_half_even x"
proof -
  assume "0 \<le> x"
  then have "0 \<le> \<lfloor>x\<rfloor>" by simp
  then show ?thesis by (simp add: round_half_even_def Let_def)
qed


lemma rhe_ge: "of_int N \<le> x \<Longrightarrow> N \<le> round_half_even x"
proof -
  assume "of_int N \<le> x"
  then have "N \<le> \<lfloor>x\<rfloor>" by (simp add: le_floor_iff)
  then show ?thesis by (simp add: round_half_even_def Let_def)
qed

lemma rmag_cert:
  assumes "0 < q" "2 powi e \<le> q" "q < 2 powi (e + 1)" "- 1022 \<le> e"
    and "\<bar>q / 2 powi (e - 52) - of_int n\<bar> < 1/2"
  shows "round_magnitude q = of_int n * 2 powi (e - 52)"
proof -
  have l: "ilog2 q = e" using assms(1-3) by (rule ilog2_unique)
  have m: "max e (- 1022) = e" using assms(4) by simp
  have r: "round_half_even (q / 2 powi (e - 52)) = n" using assms(5) by (rule rhe_cert)
  show ?thesis by (simp add: round_magnitude_def Let_def l m r)
qed

lemma rmag_nonneg:
  assumes "0 < q"
  shows "0 \<le> round_magnitude q"
proof -
  define u :: rat where "u = 2 powi (max (ilog2 q) (- 1022) - 52)"
  have upos: "0 < u" by (simp add: u_def)
  have "0 \<le> q / u" using assms upos by simp
  then have "0 \<le> round_half_even (q / u)" by (rule rhe_nonneg)
  then show ?thesis using upos by (simp add: round_magnitude_def Let_def u_def[symmetric])
qed

lemma int_pow2_bound:
  assumes "n < (2::int) ^ 53"
  shows "rat_of_int n * 2 powi k < 2 powi (53 + k)"
proof -
  have "rat_of_int n < of_int (2 ^ 53)" using assms by (simp only: of_int_less_iff)
  then have "rat_of_int n < 2 powi 53" by simp
  then have "rat_of_int n * 2 powi k < 2 powi 53 * 2 powi k" by (simp add: mult_strict_right_mono)
  then show ?thesis by (simp add: power_int_add)
qed

lemma pow2_split:
  assumes "d \<le> k"
  shows "rat_of_int n * 2 powi k = of_int (n * 2 ^ nat (k - d)) * 2 powi d"
proof -
  define j where "j = nat (k - d)"
  have kj: "k = d + int j" using assms by (simp add: j_def)
  have "(2::rat) powi k = 2 powi d * 2 powi (int j)"
    by (subst kj) (simp add: power_int_add)
  then have "(2::rat) powi k = 2 powi d * 2 ^ j" by (simp only: power_int_of_nat)
  then show ?thesis unfolding j_def[symmetric] by simp
qed

lemma rmag_le:
  assumes "0 < q" "q \<le> of_int n * 2 powi k" "n < 2 ^ 53" "- 1074 \<le> k"
  shows "round_magnitude q \<le> of_int n * 2 powi k"
proof -
  define e where "e = max (ilog2 q) (- 1022)"
  define u :: rat where "u = 2 powi (e - 52)"
  have upos: "0 < u" by (simp add: u_def)
  have "(2::rat) powi (ilog2 q) < 2 powi (53 + k)"
    using ilog2_bounds(1)[OF assms(1)] assms(2) int_pow2_bound[OF assms(3), of k] by linarith
  then have "ilog2 q < 53 + k" by (rule powi2_less_imp)
  then have ek: "e - 52 \<le> k" using assms(4) by (simp add: e_def)
  define N where "N = n * 2 ^ nat (k - (e - 52))"
  have c_eq: "rat_of_int n * 2 powi k = of_int N * u"
    unfolding N_def u_def using ek by (rule pow2_split)
  have "q \<le> of_int N * u" using assms(2) by (simp add: c_eq)
  then have "q / u \<le> of_int N" using upos by (simp add: pos_divide_le_eq)
  then have "round_half_even (q / u) \<le> N" by (rule rhe_le)
  then have "rat_of_int (round_half_even (q / u)) \<le> of_int N" by (simp only: of_int_le_iff)
  then have "of_int (round_half_even (q / u)) * u \<le> of_int N * u"
    using upos by (simp add: mult_right_mono)
  then show ?thesis by (simp add: round_magnitude_def Let_def e_def[symmetric] u_def[symmetric] c_eq)
qed

lemma rmag_ge:
  assumes "0 < of_int n * (2::rat) powi k" "of_int n * 2 powi k \<le> q" "n < 2 ^ 53" "- 1074 \<le> k"
  shows "of_int n * 2 powi k \<le> round_magnitude q"
proof -
  define e where "e = max (ilog2 q) (- 1022)"
  define u :: rat where "u = 2 powi (e - 52)"
  have upos: "0 < u" by (simp add: u_def)
  have qpos: "0 < q" using assms(1,2) by linarith
  have rm: "round_magnitude q = of_int (round_half_even (q / u)) * u"
    by (simp add: round_magnitude_def Let_def e_def[symmetric] u_def[symmetric])
  show ?thesis
  proof (cases "e - 52 \<le> k")
    case True
    define N where "N = n * 2 ^ nat (k - (e - 52))"
    have c_eq: "rat_of_int n * 2 powi k = of_int N * u"
      unfolding N_def u_def using True by (rule pow2_split)
    have "of_int N * u \<le> q" using assms(2) by (simp add: c_eq)
    then have "of_int N \<le> q / u" using upos by (simp add: pos_le_divide_eq)
    then have "N \<le> round_half_even (q / u)" by (rule rhe_ge)
    then have "rat_of_int N \<le> of_int (round_half_even (q / u))" by (simp only: of_int_le_iff)
    then have "of_int N * u \<le> of_int (round_half_even (q / u)) * u"
      using upos by (simp add: mult_right_mono)
    then show ?thesis by (simp add: rm c_eq)
  next
    case False
    then have el: "e = ilog2 q" using assms(4) by (simp add: e_def max_def split: if_splits)
    have "2 powi e \<le> q" unfolding el using ilog2_bounds(1)[OF qpos] .
    then have "2 powi e / u \<le> q / u" using upos by (simp add: divide_right_mono)
    moreover have "(2::rat) powi e / u = 2 powi 52"
      unfolding u_def by (simp add: power_int_diff)
    ultimately have "rat_of_int (2 ^ 52) \<le> q / u" by simp
    then have "2 ^ 52 \<le> round_half_even (q / u)" by (rule rhe_ge)
    then have "rat_of_int (2 ^ 52) \<le> of_int (round_half_even (q / u))" by (simp only: of_int_le_iff)
    then have "of_int (2 ^ 52) * u \<le> of_int (round_half_even (q / u)) * u"
      using upos by (simp add: mult_right_mono)
    moreover have "of_int (2 ^ 52) * u = 2 powi e"
      unfolding u_def by (simp add: power_int_diff)
    ultimately have r_ge: "2 powi e \<le> round_magnitude q" by (simp add: rm)
    have "53 + k \<le> e" using False by simp
    then have "(2::rat) powi (53 + k) \<le> 2 powi e" by (intro power_int_increasing) auto
    then show ?thesis using r_ge int_pow2_bound[OF assms(3), of k] by linarith
  qed
qed

lemma rnd_pos:
  assumes "0 < q"
  shows "rnd q = (if 2 powi 1024 \<le> round_magnitude q then PInf else Fin (round_magnitude q))"
  using assms by (simp add: rnd_def Let_def)

lemma rnd_neg: "rnd (- q) = fneg (rnd q)"
  by (simp add: rnd_def Let_def)

lemma rnd_cert:
  assumes "0 < q" "2 powi e \<le> q" "q < 2 powi (e + 1)" "- 1022 \<le> e"
    and "\<bar>q / 2 powi (e - 52) - of_int n\<bar> < 1/2"
    and "of_int n * 2 powi (e - 52) < (2::rat) powi 1024"
  shows "rnd q = Fin (of_int n * 2 powi (e - 52))"
  using rmag_cert[OF assms(1-5)] assms(1,6) by (simp add: rnd_pos)

lemma rnd_le:
  assumes "0 < q" "q \<le> of_int n * 2 powi k" "n < 2 ^ 53" "- 1074 \<le> k" "k \<le> 971"
  shows "\<exists>r. rnd q = Fin r \<and> 0 \<le> r \<and> r \<le> of_int n * 2 powi k"
proof -
  have le: "round_magnitude q \<le> of_int n * 2 powi k" using assms(1-4) by (rule rmag_le)
  have "(2::rat) powi (53 + k) \<le> 2 powi 1024" using assms(5) by (intro power_int_increasing) auto
  then have "round_magnitude q < 2 powi 1024"
    using le int_pow2_bound[OF assms(3), of k] by linarith
  then show ?thesis using le rmag_nonneg[OF assms(1)] assms(1) by (simp add: rnd_pos)
qed

lemma rnd_ge:
  assumes "0 < of_int n * (2::rat) powi k" "of_int n * 2 powi k \<le> q" "n < 2 ^ 53" "- 1074 \<le> k"
  shows "rnd q = PInf \<or> (\<exists>r. rnd q = Fin r \<and> of_int n * 2 powi k \<le> r)"
proof -
  have "0 < q" using assms(1,2) by linarith
  then show ?thesis using rmag_ge[OF assms] by (simp add: rnd_pos)
qed

lemma rnd_overflow:
  assumes "2 powi 1024 \<le> q"
  shows "rnd q = PInf"
proof -
  have "rat_of_int 1 * 2 powi 1024 \<le> round_magnitude q"
    using assms by (intro rmag_ge) auto
  moreover have "(0::rat) < 2 powi 1024" by simp
  then have "0 < q" using assms by linarith
  ultimately show ?thesis using \<open>0 < q\<close> by (simp add: rnd_pos)
qed

lemma rhe_tie:
  assumes "\<bar>x - of_int n\<bar> = 1/2" "even n"
  shows "round_half_even x = n"
proof (cases "of_int n \<le> x")
  case True
  then have x: "x = of_int n + 1/2" using assms(1) by simp
  then have "\<lfloor>x\<rfloor> = n" by (simp add: floor_unique)
  then show ?thesis using x assms(2) by (simp add: round_half_even_def Let_def)
next
  case False
  then have x: "x = of_int n - 1/2" using assms(1) by simp
  then have f: "\<lfloor>x\<rfloor> = n - 1" by (simp add: floor_unique)
  have "x - of_int (n - 1) = 1/2" using x by simp
  then show ?thesis using f assms(2) by (simp add: round_half_even_def Let_def)
qed

lemma rnd_cert_tie:
  assumes "0 < q" "2 powi e \<le> q" "q < 2 powi (e + 1)" "- 1022 \<le> e"
    and "\<bar>q / 2 powi (e - 52) - of_int n\<bar> = 1/2" "even n"
    and "of_int n * 2 powi (e - 52) < (2::rat) powi 1024"
  shows "rnd q = Fin (of_int n * 2 powi (e - 52))"
proof -
  have l: "ilog2 q = e" using assms(1-3) by (rule ilog2_unique)
  have m: "max e (- 1022) = e" using assms(4) by simp
  have r: "round_half_even (q / 2 powi (e - 52)) = n" using assms(5,6) by (rule rhe_tie)
  have "round_magnitude q = of_int n * 2 powi (e - 52)"
    by (simp add: round_magnitude_def Let_def l m r)
  then show ?thesis using assms(1,7) by (simp add: rnd_pos)
qed

named_theorems rhe_vals \<open>values of the rounding to an integer at the numbers this program meets\<close>

lemma rhe_of_int: "round_half_even (of_int n) = n"
  using rhe_cert[of "of_int n" n] by simp

lemma rhe_numeral [simp]: "round_half_even (numeral k) = numeral k"
  using rhe_of_int[of "numeral k"] by simp

lemma rhe_0 [simp]: "round_half_even 0 = 0"
  using rhe_of_int[of 0] by simp

lemma rhe_1 [simp]: "round_half_even 1 = 1"
  using rhe_of_int[of 1] by simp

named_theorems rnd_vals \<open>values of the rounding function at the numbers this program meets\<close>

lemma rnd_0 [simp]: "rnd 0 = Fin 0"
  by (simp add: rnd_def)

lemma rnd_4_5 [rnd_vals]: "rnd (4 / 5) = Fin (3602879701896397 / 4503599627370496)"
  using rnd_cert[of "4 / 5" "-1" 7205759403792794] by simp

lemma rnd_3_4 [rnd_vals]: "rnd (3 / 4) = Fin (3 / 4)"
  using rnd_cert[of "3 / 4" "-1" 6755399441055744] by simp

lemma rnd_7_10 [rnd_vals]: "rnd (7 / 10) = Fin (3152519739159347 / 4503599627370496)"
  using rnd_cert[of "7 / 10" "-1" 6305039478318694] by simp

lemma rnd_6_5 [rnd_vals]: "rnd (6 / 5) = Fin (5404319552844595 / 4503599627370496)"
  using rnd_cert[of "6 / 5" "0" 5404319552844595] by simp

lemma rnd_9_10 [rnd_vals]: "rnd (9 / 10) = Fin (8106479329266893 / 9007199254740992)"
  using rnd_cert[of "9 / 10" "-1" 8106479329266893] by simp

lemma rnd_1_2 [rnd_vals]: "rnd (1 / 2) = Fin (1 / 2)"
  using rnd_cert[of "1 / 2" "-1" 4503599627370496] by simp

lemma rnd_2_5 [rnd_vals]: "rnd (2 / 5) = Fin (3602879701896397 / 9007199254740992)"
  using rnd_cert[of "2 / 5" "-2" 7205759403792794] by simp

lemma rnd_9_20 [rnd_vals]: "rnd (9 / 20) = Fin (8106479329266893 / 18014398509481984)"
  using rnd_cert[of "9 / 20" "-2" 8106479329266893] by simp

lemma rnd_3_10 [rnd_vals]: "rnd (3 / 10) = Fin (5404319552844595 / 18014398509481984)"
  using rnd_cert[of "3 / 10" "-2" 5404319552844595] by simp

lemma rnd_1_5 [rnd_vals]: "rnd (1 / 5) = Fin (3602879701896397 / 18014398509481984)"
  using rnd_cert[of "1 / 5" "-3" 7205759403792794] by simp

lemma rnd_3_20 [rnd_vals]: "rnd (3 / 20) = Fin (5404319552844595 / 36028797018963968)"
  using rnd_cert[of "3 / 20" "-3" 5404319552844595] by simp

lemma rnd_3_5 [rnd_vals]: "rnd (3 / 5) = Fin (5404319552844595 / 9007199254740992)"
  using rnd_cert[of "3 / 5" "-1" 5404319552844595] by simp

lemma rnd_3_2 [rnd_vals]: "rnd (3 / 2) = Fin (3 / 2)"
  using rnd_cert[of "3 / 2" "0" 6755399441055744] by simp

lemma rnd_2 [rnd_vals]: "rnd 2 = Fin 2"
  using rnd_cert[of "2" "1" 4503599627370496] by simp

lemma rnd_23_20 [rnd_vals]: "rnd (23 / 20) = Fin (2589569785738035 / 2251799813685248)"
  using rnd_cert[of "23 / 20" "0" 5179139571476070] by simp

lemma rnd_1_10 [rnd_vals]: "rnd (1 / 10) = Fin (3602879701896397 / 36028797018963968)"
  using rnd_cert[of "1 / 10" "-4" 7205759403792794] by simp

lemma rnd_1 [rnd_vals]: "rnd 1 = Fin 1"
  using rnd_cert[of "1" "0" 4503599627370496] by simp

lemma rnd_48 [rnd_vals]: "rnd 48 = Fin 48"
  using rnd_cert[of "48" "5" 6755399441055744] by simp

lemma rnd_24 [rnd_vals]: "rnd 24 = Fin 24"
  using rnd_cert[of "24" "4" 6755399441055744] by simp

lemma rnd_2_25 [rnd_vals]: "rnd (2 / 25) = Fin (5764607523034235 / 72057594037927936)"
  using rnd_cert[of "2 / 25" "-4" 5764607523034235] by simp

lemma rnd_1_25 [rnd_vals]: "rnd (1 / 25) = Fin (5764607523034235 / 144115188075855872)"
  using rnd_cert[of "1 / 25" "-5" 5764607523034235] by simp

lemma rnd_3_25 [rnd_vals]: "rnd (3 / 25) = Fin (1080863910568919 / 9007199254740992)"
  using rnd_cert[of "3 / 25" "-4" 8646911284551352] by simp

lemma rnd_1_20 [rnd_vals]: "rnd (1 / 20) = Fin (3602879701896397 / 72057594037927936)"
  using rnd_cert[of "1 / 20" "-5" 7205759403792794] by simp

lemma rnd_1_50 [rnd_vals]: "rnd (1 / 50) = Fin (5764607523034235 / 288230376151711744)"
  using rnd_cert[of "1 / 50" "-6" 5764607523034235] by simp

lemma rnd_1_4 [rnd_vals]: "rnd (1 / 4) = Fin (1 / 4)"
  using rnd_cert[of "1 / 4" "-2" 4503599627370496] by simp

lemma rnd_7_20 [rnd_vals]: "rnd (7 / 20) = Fin (3152519739159347 / 9007199254740992)"
  using rnd_cert[of "7 / 20" "-2" 6305039478318694] by simp

lemma rnd_3_100 [rnd_vals]: "rnd (3 / 100) = Fin (1080863910568919 / 36028797018963968)"
  using rnd_cert[of "3 / 100" "-6" 8646911284551352] by simp

lemma rnd_3 [rnd_vals]: "rnd 3 = Fin 3"
  using rnd_cert[of "3" "1" 6755399441055744] by simp

lemma rnd_4 [rnd_vals]: "rnd 4 = Fin 4"
  using rnd_cert[of "4" "2" 4503599627370496] by simp

lemma rnd_5 [rnd_vals]: "rnd 5 = Fin 5"
  using rnd_cert[of "5" "2" 5629499534213120] by simp

section \<open>Interpretation bands\<close>

text \<open>
  Claim C3. The interpretation of a score is chosen by ascending, first-match bands with the
  boundaries 0.3, 0.6, 1.0, 1.5 and 2.0, each band including its lower and excluding its upper
  boundary: a score below 0.3 gives the LOW REACH text, from 0.3 to below 0.6 the MODERATE-LOW
  REACH text, from 0.6 to below 1.0 MODERATE REACH, from 1.0 to below 1.5 GOOD REACH, from 1.5
  to below 2.0 EXCELLENT REACH, and from 2.0 on VIRAL POTENTIAL. In particular the score 0.3
  gives MODERATE-LOW REACH and the score 2.0 gives VIRAL POTENTIAL. The comparisons are
  those of Python floats, for every float \<open>s\<close>.
\<close>

theorem interpret_score_bands:
  "(flt s (lit (3/10)) \<longrightarrow>
      interpret_score s p n = ''LOW REACH: Content likely to be suppressed significantly'') \<and>
   (fge s (lit (3/10)) \<and> flt s (lit (6/10)) \<longrightarrow>
      interpret_score s p n = ''MODERATE-LOW REACH: Content will struggle to gain traction'') \<and>
   (fge s (lit (6/10)) \<and> flt s (lit 1) \<longrightarrow>
      interpret_score s p n = ''MODERATE REACH: Content should reach some users'') \<and>
   (fge s (lit 1) \<and> flt s (lit (15/10)) \<longrightarrow>
      interpret_score s p n = ''GOOD REACH: Content is well-positioned in the algorithm'') \<and>
   (fge s (lit (15/10)) \<and> flt s (lit 2) \<longrightarrow>
      interpret_score s p n = ''EXCELLENT REACH: Content optimized for strong distribution'') \<and>
   (fge s (lit 2) \<longrightarrow>
      interpret_score s p n = ''VIRAL POTENTIAL: Content has maximum algorithmic support'') \<and>
   interpret_score (lit (3/10)) p n
     = ''MODERATE-LOW REACH: Content will struggle to gain traction'' \<and>
   interpret_score (lit 2) p n = ''VIRAL POTENTIAL: Content has maximum algorithmic support''"
  by (cases s) (simp_all add: interpret_score_def lit_def rnd_vals fge_def fle_def feq_def)

text \<open>One score in each of the six bands.\<close>

theorem interpret_score_bands_witness:
  "interpret_score (lit (1/10)) (Fin 0) (Fin 0)
     = ''LOW REACH: Content likely to be suppressed significantly'' \<and>
   interpret_score (lit (45/100)) (Fin 0) (Fin 0)
     = ''MODERATE-LOW REACH: Content will struggle to gain traction'' \<and>
   interpret_score (lit (8/10)) (Fin 0) (Fin 0)
     = ''MODERATE REACH: Content should reach some users'' \<and>
   interpret_score (lit (12/10)) (Fin 0) (Fin 0)
     = ''GOOD REACH: Content is well-positioned in the algorithm'' \<and>
   interpret_score (lit (15/10)) (Fin 0) (Fin 0)
     = ''EXCELLENT REACH: Content optimized for strong distribution'' \<and>
   interpret_score PInf (Fin 0) (Fin 0)
     = ''VIRAL POTENTIAL: Content has maximum algorithmic support''"
  using interpret_score_bands[of "lit (1/10)" "Fin 0" "Fin 0"]
        interpret_score_bands[of "lit (45/100)" "Fin 0" "Fin 0"]
        interpret_score_bands[of "lit (8/10)" "Fin 0" "Fin 0"]
        interpret_score_bands[of "lit (12/10)" "Fin 0" "Fin 0"]
        interpret_score_bands[of "lit (15/10)" "Fin 0" "Fin 0"]
        interpret_score_bands[of "PInf" "Fin 0" "Fin 0"]
  by (simp add: lit_def rnd_vals fge_def fle_def feq_def)

section \<open>Age multiplier\<close>

lemma fdiv_48: "fdiv a (Fin 48) = Inr (case a of Fin x \<Rightarrow> rnd (x / 48) | v \<Rightarrow> v)"
  by (cases a) simp_all

lemma calculate_age_multiplier_total: "\<exists>m. calculate_age_multiplier a = Inr m"
  by (cases a) (simp_all add: calculate_age_multiplier_def)

text \<open>
  Claim C4. The age multiplier is 1.0 for every age of at most 0 hours, 0.1 for every age of
  at least 48 hours, and \<^verbatim>\<open>max(0.1, 1 - age_hours / 48)\<close> in between, the division never
  raising; in particular it is 1.0 at age 0, 0.5 at age 24, 0.1 at age 48 and 0.1 at age 100.
\<close>

theorem age_multiplier_cases:
  "(fle a (Fin 0) \<longrightarrow> calculate_age_multiplier a = Inr (lit 1)) \<and>
   (fge a (Fin 48) \<longrightarrow> calculate_age_multiplier a = Inr (lit (1/10))) \<and>
   (fgt a (Fin 0) \<and> flt a (Fin 48) \<longrightarrow>
      (\<exists>q. fdiv a (Fin 48) = Inr q \<and>
           calculate_age_multiplier a = Inr (pymax (lit (1/10)) (fsub (Fin 1) q)))) \<and>
   calculate_age_multiplier (Fin 0) = Inr (lit 1) \<and>
   calculate_age_multiplier (Fin 24) = Inr (lit (5/10)) \<and>
   calculate_age_multiplier (Fin 48) = Inr (lit (1/10)) \<and>
   calculate_age_multiplier (Fin 100) = Inr (lit (1/10))"
proof -
  have a: "fle a (Fin 0) \<longrightarrow> calculate_age_multiplier a = Inr (lit 1)"
    by (simp add: calculate_age_multiplier_def)
  have b: "fge a (Fin 48) \<longrightarrow> calculate_age_multiplier a = Inr (lit (1/10))"
    by (cases a) (auto simp add: calculate_age_multiplier_def fge_def fle_def feq_def)
  have c: "fgt a (Fin 0) \<and> flt a (Fin 48) \<longrightarrow>
      (\<exists>q. fdiv a (Fin 48) = Inr q \<and>
           calculate_age_multiplier a = Inr (pymax (lit (1/10)) (fsub (Fin 1) q)))"
    by (cases a) (auto simp add: calculate_age_multiplier_def fge_def fgt_def fle_def feq_def)
  have d: "calculate_age_multiplier (Fin 0) = Inr (lit 1)"
    by (simp add: calculate_age_multiplier_def fle_def feq_def)
  have e: "calculate_age_multiplier (Fin 24) = Inr (lit (5/10))"
    by (simp add: calculate_age_multiplier_def fge_def fle_def feq_def fgt_def pymax_def fsub_def
          lit_def rnd_vals)
  have f: "calculate_age_multiplier (Fin 48) = Inr (lit (1/10))"
    by (simp add: calculate_age_multiplier_def fge_def fle_def feq_def)
  have g: "calculate_age_multiplier (Fin 100) = Inr (lit (1/10))"
    by (simp add: calculate_age_multiplier_def fge_def fle_def feq_def)
  show ?thesis using a b c d e f g by blast
qed

text \<open>One age in each of the three ranges: -1, 50 and 12 hours.\<close>

theorem age_multiplier_cases_witness:
  "calculate_age_multiplier (Fin (- 1)) = Inr (Fin 1) \<and>
   calculate_age_multiplier (Fin 50) = Inr (lit (1/10)) \<and>
   calculate_age_multiplier (Fin 12) = Inr (Fin (3/4))"
  using age_multiplier_cases[of "Fin (- 1)"] age_multiplier_cases[of "Fin 50"]
        age_multiplier_cases[of "Fin 12"]
  by (simp add: fge_def fle_def feq_def fgt_def pymax_def fsub_def lit_def rnd_vals)

section \<open>Diversity multiplier\<close>

text \<open>
  The exponent \<^verbatim>\<open>post_position - 1\<close> is an int and is converted to a float before the
  power is taken. Up to \<open>2^1023\<close> the conversion succeeds and the power of 0.45 is small;
  from \<open>2^1024\<close> on the conversion raises \<^verbatim>\<open>OverflowError\<close>.
\<close>

lemma rnd_diversity_sq [rnd_vals]: "rnd (65715007115831415416180825873449 / 324518553658426726783156020576256) = Fin (1823957849085051 / 9007199254740992)"
  using rnd_cert[of "65715007115831415416180825873449 / 324518553658426726783156020576256" "-3" 7295831396340204] by simp

lemma rnd_diversity_base [rnd_vals]: "rnd (8106479329266893 / 18014398509481984) = Fin (8106479329266893 / 18014398509481984)"
  using rnd_cert[of "8106479329266893 / 18014398509481984" "-2" 8106479329266893] by simp

lemma float_of_int_range:
  assumes "3 \<le> k" "k \<le> 2 ^ 1023"
  shows "\<exists>y. float_of_int k = Inr (Fin y) \<and> 3 \<le> y"
proof -
  have pos: "0 < rat_of_int k" using assms(1) by simp
  have "rat_of_int k \<le> of_int (2 ^ 1023)" using assms(2) by (simp only: of_int_le_iff)
  then have "rat_of_int k \<le> of_int (2 ^ 52) * 2 powi 971" by simp
  then obtain r where r: "rnd (of_int k) = Fin r"
    using rnd_le[OF pos, of "2 ^ 52" 971] by auto
  have "rat_of_int 3 \<le> of_int k" using assms(1) by (simp only: of_int_le_iff)
  then have "rat_of_int 3 * 2 powi 0 \<le> of_int k" by simp
  then have "rnd (of_int k) = PInf \<or> (\<exists>r. rnd (of_int k) = Fin r \<and> rat_of_int 3 * 2 powi 0 \<le> r)"
    by (intro rnd_ge) auto
  then have "3 \<le> r" using r by simp
  then show ?thesis using r by (simp add: float_of_int_def)
qed

lemma float_of_int_overflow:
  assumes "2 ^ 1024 \<le> k"
  shows "float_of_int k = Inl OverflowError"
proof -
  have "rat_of_int (2 ^ 1024) \<le> of_int k" using assms by (simp only: of_int_le_iff)
  then have "2 powi 1024 \<le> rat_of_int k" by simp
  then have "rnd (of_int k) = PInf" by (rule rnd_overflow)
  then show ?thesis by (simp add: float_of_int_def)
qed

lemma diversity_power_small:
  assumes "3 \<le> y"
  shows "\<exists>r. pow_float DIVERSITY_BASE (Fin y) = Inr (Fin r) \<and> 0 \<le> r \<and> r \<le> 3 / 32"
proof -
  define d :: rat where "d = 8106479329266893 / 18014398509481984"
  define j where "j = nat \<lfloor>y\<rfloor>"
  have "of_int 3 \<le> y" using assms by simp
  then have k: "3 \<le> \<lfloor>y\<rfloor>" by (simp only: le_floor_iff)
  then have j3: "3 \<le> j" unfolding j_def by linarith
  have d01: "0 < d" "d \<le> 1" by (simp_all add: d_def)
  have "d ^ j \<le> d ^ 3" using j3 d01 by (intro power_decreasing) auto
  moreover have "d ^ 3 \<le> 3 / 32" by (simp add: d_def power_divide)
  ultimately have "d ^ j \<le> of_int 3 * 2 powi (- 5)" by simp
  moreover have "0 < d ^ j" using d01 by simp
  ultimately obtain r where r: "rnd (d ^ j) = Fin r" "0 \<le> r" "r \<le> of_int 3 * 2 powi (- 5)"
    using rnd_le[of "d ^ j" 3 "- 5"] by auto
  have "pow_float DIVERSITY_BASE (Fin y) = finite_or_overflow (rnd (d ^ j))"
    using k by (simp add: DIVERSITY_BASE_def lit_def rnd_vals d_def j_def Let_def)
  then show ?thesis using r by (simp add: finite_or_overflow_def)
qed

lemma diversity_values:
  assumes "p \<le> 2 ^ 1023"
  shows "calculate_diversity_multiplier p =
           Inr (if p \<le> 1 then Fin 1
                else if p = 2 then Fin (8106479329266893 / 18014398509481984)
                else if p = 3 then Fin (1823957849085051 / 9007199254740992)
                else Fin (3602879701896397 / 36028797018963968))"
proof -
  consider "p \<le> 1" | "p = 2" | "p = 3" | "4 \<le> p" by linarith
  then show ?thesis
  proof cases
    case 1
    then show ?thesis by (simp add: calculate_diversity_multiplier_def lit_def rnd_vals)
  next
    case 2
    then show ?thesis
      by (simp add: calculate_diversity_multiplier_def fpow_def float_of_int_def
            finite_or_overflow_def DIVERSITY_BASE_def DIVERSITY_FLOOR_def pymax_def fgt_def
            lit_def rnd_vals)
  next
    case 3
    then show ?thesis
      by (simp add: calculate_diversity_multiplier_def fpow_def float_of_int_def
            finite_or_overflow_def DIVERSITY_BASE_def DIVERSITY_FLOOR_def pymax_def fgt_def
            lit_def rnd_vals power_divide)
  next
    case 4
    then have "3 \<le> p - 1" "p - 1 \<le> 2 ^ 1023" using assms by simp_all
    then obtain y where y: "float_of_int (p - 1) = Inr (Fin y)" "3 \<le> y"
      using float_of_int_range by blast
    obtain r where r: "pow_float DIVERSITY_BASE (Fin y) = Inr (Fin r)" "0 \<le> r" "r \<le> 3 / 32"
      using diversity_power_small[OF y(2)] by blast
    have "pymax DIVERSITY_FLOOR (Fin r) = Fin (3602879701896397 / 36028797018963968)"
      using r(3) by (simp add: pymax_def fgt_def DIVERSITY_FLOOR_def lit_def rnd_vals)
    then show ?thesis using 4 y r
      by (simp add: calculate_diversity_multiplier_def fpow_def)
  qed
qed

lemma diversity_overflow:
  assumes "2 ^ 1024 < p"
  shows "calculate_diversity_multiplier p = Inl OverflowError"
proof -
  have "2 ^ 1024 \<le> p - 1" using assms by simp
  then have "float_of_int (p - 1) = Inl OverflowError" by (rule float_of_int_overflow)
  moreover have "\<not> p \<le> 1" using assms by (smt (verit) zero_less_power)
  ultimately show ?thesis by (simp add: calculate_diversity_multiplier_def fpow_def)
qed

text \<open>
  Claim C5, as amended. For every post position up to \<open>2^1023\<close> the diversity multiplier is
  1.0 when the position is at most 1 and \<^verbatim>\<open>max(0.10, 0.45 ** (post_position - 1))\<close>
  otherwise; it lies between 0.10 and 1.0, it is exactly 1.0 at position 1, and it does not
  increase as the position grows. For a position above \<open>2^1024\<close> the call raises
  \<^verbatim>\<open>OverflowError\<close> and returns no multiplier.
\<close>

theorem diversity_multiplier_in_float_range:
  "(p \<le> 1 \<longrightarrow> calculate_diversity_multiplier p = Inr (lit 1)) \<and>
   (1 < p \<and> p \<le> 2 ^ 1023 \<longrightarrow>
      (\<exists>m. fpow DIVERSITY_BASE (p - 1) = Inr m \<and>
           calculate_diversity_multiplier p = Inr (pymax DIVERSITY_FLOOR m))) \<and>
   (p \<le> 2 ^ 1023 \<longrightarrow>
      (\<exists>d. calculate_diversity_multiplier p = Inr d \<and> fle (lit (10/100)) d \<and> fle d (lit 1))) \<and>
   calculate_diversity_multiplier 1 = Inr (lit 1) \<and>
   (p \<le> q \<and> q \<le> 2 ^ 1023 \<longrightarrow>
      (\<exists>d d'. calculate_diversity_multiplier p = Inr d \<and>
              calculate_diversity_multiplier q = Inr d' \<and> fle d' d)) \<and>
   (2 ^ 1024 < p \<longrightarrow> calculate_diversity_multiplier p = Inl OverflowError)"
proof -
  have a: "p \<le> 1 \<longrightarrow> calculate_diversity_multiplier p = Inr (lit 1)"
    by (simp add: calculate_diversity_multiplier_def)
  have b: "1 < p \<and> p \<le> 2 ^ 1023 \<longrightarrow>
      (\<exists>m. fpow DIVERSITY_BASE (p - 1) = Inr m \<and>
           calculate_diversity_multiplier p = Inr (pymax DIVERSITY_FLOOR m))"
  proof
    assume h: "1 < p \<and> p \<le> 2 ^ 1023"
    then obtain v where v: "calculate_diversity_multiplier p = Inr v"
      using diversity_values[of p] by simp
    show "\<exists>m. fpow DIVERSITY_BASE (p - 1) = Inr m \<and>
           calculate_diversity_multiplier p = Inr (pymax DIVERSITY_FLOOR m)"
    proof (cases "fpow DIVERSITY_BASE (p - 1)")
      case (Inl e)
      then show ?thesis using h v by (simp add: calculate_diversity_multiplier_def)
    next
      case (Inr m)
      then show ?thesis using h by (simp add: calculate_diversity_multiplier_def)
    qed
  qed
  have c: "p \<le> 2 ^ 1023 \<longrightarrow>
      (\<exists>d. calculate_diversity_multiplier p = Inr d \<and> fle (lit (10/100)) d \<and> fle d (lit 1))"
    by (simp add: diversity_values fle_def feq_def lit_def rnd_vals)
  have d: "calculate_diversity_multiplier 1 = Inr (lit 1)"
    by (simp add: calculate_diversity_multiplier_def)
  have e: "p \<le> q \<and> q \<le> 2 ^ 1023 \<longrightarrow>
      (\<exists>d d'. calculate_diversity_multiplier p = Inr d \<and>
              calculate_diversity_multiplier q = Inr d' \<and> fle d' d)"
  proof
    assume h: "p \<le> q \<and> q \<le> 2 ^ 1023"
    then have p: "p \<le> 2 ^ 1023" by linarith
    show "\<exists>d d'. calculate_diversity_multiplier p = Inr d \<and>
              calculate_diversity_multiplier q = Inr d' \<and> fle d' d"
      using h by (simp add: diversity_values[OF p] diversity_values[of q] fle_def feq_def)
  qed
  have f: "2 ^ 1024 < p \<longrightarrow> calculate_diversity_multiplier p = Inl OverflowError"
    using diversity_overflow by blast
  show ?thesis using a b c d e f by blast
qed

text \<open>Positions 0, 3, 5 and \<open>2^1024 + 2\<close>.\<close>

theorem diversity_multiplier_in_float_range_witness:
  "calculate_diversity_multiplier 0 = Inr (lit 1) \<and>
   (\<exists>m. fpow DIVERSITY_BASE (3 - 1) = Inr m \<and>
        calculate_diversity_multiplier 3 = Inr (pymax DIVERSITY_FLOOR m)) \<and>
   (\<exists>d. calculate_diversity_multiplier 3 = Inr d \<and> fle (lit (10/100)) d \<and> fle d (lit 1)) \<and>
   (\<exists>d d'. calculate_diversity_multiplier 3 = Inr d \<and>
           calculate_diversity_multiplier 5 = Inr d' \<and> fle d' d) \<and>
   calculate_diversity_multiplier (2 ^ 1024 + 2) = Inl OverflowError"
  using diversity_multiplier_in_float_range[of 0 0]
        diversity_multiplier_in_float_range[of 3 5]
        diversity_multiplier_in_float_range[of "2 ^ 1024 + 2" 0]
  by simp

text \<open>
  The claim as stated, for every post position, fails at the position \<open>2^1024 + 1\<close>: the
  call returns no multiplier there.
\<close>

theorem diversity_multiplier_counterexample:
  "calculate_diversity_multiplier (2 ^ 1024 + 1) = Inl OverflowError"
  using diversity_overflow[of "2 ^ 1024 + 1"] by simp

section \<open>The score calculator\<close>

subsection \<open>When it returns, and what\<close>

lemma rnd_nonpos:
  assumes "q \<le> 0"
  shows "rnd q = NInf \<or> (\<exists>r. rnd q = Fin r \<and> r \<le> 0)"
proof (cases "q = 0")
  case True
  then show ?thesis by simp
next
  case False
  then have "0 < \<bar>q\<bar>" by simp
  then have "0 \<le> round_magnitude \<bar>q\<bar>" by (rule rmag_nonneg)
  then show ?thesis using assms False by (simp add: rnd_def Let_def)
qed

lemma round4_le_three_halves:
  assumes "\<not> fgt s (Fin (3/2))"
  shows "\<not> fgt (round4 s) (Fin (3/2))"
proof (cases s)
  case (Fin x)
  then have x: "x \<le> 3/2" using assms by (simp add: fgt_def)
  define q :: rat where "q = of_int (round_half_even (x * 10 ^ 4)) / 10 ^ 4"
  have "x * 10 ^ 4 \<le> of_int 15000" using x by simp
  then have "round_half_even (x * 10 ^ 4) \<le> 15000" by (rule rhe_le)
  then have "rat_of_int (round_half_even (x * 10 ^ 4)) \<le> of_int 15000" by (simp only: of_int_le_iff)
  then have q: "q \<le> 3/2" by (simp add: q_def)
  have r: "round4 s = rnd q" using Fin by (simp add: q_def)
  show ?thesis
  proof (cases "0 < q")
    case True
    have "q \<le> of_int 3 * 2 powi (- 1)" using q by simp
    then obtain r' where "rnd q = Fin r'" "r' \<le> of_int 3 * 2 powi (- 1)"
      using rnd_le[OF True, of 3 "- 1"] by auto
    then show ?thesis using r by (simp add: fgt_def)
  next
    case False
    then have "q \<le> 0" by simp
    then have "rnd q = NInf \<or> (\<exists>r. rnd q = Fin r \<and> r \<le> 0)" by (rule rnd_nonpos)
    then show ?thesis using r by (auto simp add: fgt_def)
  qed
qed (use assms in \<open>simp_all add: fgt_def\<close>)


lemma calculate_score_total:
  assumes "post_position modifiers \<le> 2 ^ 1023"
  shows "\<exists>r. calculate_score probs modifiers = Inr r"
proof -
  obtain d where d: "calculate_diversity_multiplier (post_position modifiers) = Inr d"
    using diversity_values[OF assms] by simp
  obtain a where a: "calculate_age_multiplier (post_age_hours modifiers) = Inr a"
    using calculate_age_multiplier_total by blast
  show ?thesis by (simp add: calculate_score_def Let_def d a)
qed

lemma calculate_score_result:
  assumes "calculate_score probs modifiers = Inr r"
  shows "\<exists>d a. calculate_diversity_multiplier (post_position modifiers) = Inr d \<and>
           calculate_age_multiplier (post_age_hours modifiers) = Inr a \<and>
           r = (let bonus = (has_video modifiers \<and> fgt (video_view probs) (Fin 0));
                    positive = (if bonus then fmul (positive_contributions probs) VIDEO_BONUS
                                else positive_contributions probs);
                    negative = negative_contributions probs;
                    oon = (if is_out_of_network modifiers then OON_PENALTY else lit 1);
                    final = fmul (fmul (fmul (fsub positive negative) d) oon) a
                in \<lparr>final_score = round4 final, positive_score = round4 positive,
                     negative_score = round4 negative, diversity_multiplier = round4 d,
                     oon_multiplier = round4 oon, age_multiplier = round4 a,
                     video_bonus_applied = bonus,
                     interpretation_str = interpret_score final positive negative,
                     recommendations = generate_recommendations probs modifiers final\<rparr>)"
proof (cases "calculate_diversity_multiplier (post_position modifiers)")
  case (Inl e)
  then show ?thesis using assms by (simp add: calculate_score_def Let_def)
next
  case d: (Inr d)
  show ?thesis
  proof (cases "calculate_age_multiplier (post_age_hours modifiers)")
    case (Inl e)
    then show ?thesis using assms d by (simp add: calculate_score_def Let_def)
  next
    case (Inr a)
    then show ?thesis using assms d by (auto simp add: calculate_score_def Let_def)
  qed
qed

subsection \<open>Concrete inputs\<close>

text \<open>
  Six calls, each evaluated step by step: every rounding is settled by its certificate.
  The inputs are built from \<^verbatim>\<open>EngagementProbabilities()\<close> and \<^verbatim>\<open>ContentModifiers()\<close>.
\<close>

lemma aged_oon_r1 [rnd_vals]: "rnd (1 / 48) = Fin (6004799503160661 / 288230376151711744)"
  using rnd_cert[of "1 / 48" "-6" 6004799503160661] by simp

lemma aged_oon_r2 [rnd_vals]: "rnd (282225576648551083 / 288230376151711744) = Fin (8819549270267221 / 9007199254740992)"
  using rnd_cert[of "282225576648551083 / 288230376151711744" "-1" 8819549270267221] by simp

lemma aged_oon_r3 [rnd_vals]: "rnd (3152519739159347 / 4503599627370496) = Fin (3152519739159347 / 4503599627370496)"
  using rnd_cert[of "3152519739159347 / 4503599627370496" "-1" 6305039478318694] by simp

lemma aged_oon_r4 [rnd_vals]: "rnd (27803803165005828724744589864687 / 40564819207303340847894502572032) = Fin (3086842244593527 / 4503599627370496)"
  using rnd_cert[of "27803803165005828724744589864687 / 40564819207303340847894502572032" "-1" 6173684489187054] by simp

lemma aged_oon_r5 [rnd_vals]: "rnd (3427 / 5000) = Fin (1543383592299869 / 2251799813685248)"
  using rnd_cert[of "3427 / 5000" "-1" 6173534369199476] by simp

lemma aged_oon_r6 [rnd_vals]: "rnd (612 / 625) = Fin (8819849510242379 / 9007199254740992)"
  using rnd_cert[of "612 / 625" "-1" 8819849510242379] by simp

lemma aged_oon_h1 [rhe_vals]: "round_half_even (1929276402870954375 / 281474976710656) = 6854"
  using rhe_cert[of "1929276402870954375 / 281474976710656" "6854"] by simp

lemma aged_oon_h2 [rhe_vals]: "round_half_even (1970324836974591875 / 281474976710656) = 7000"
  using rhe_cert[of "1970324836974591875 / 281474976710656" "7000"] by simp

lemma aged_oon_h3 [rhe_vals]: "round_half_even (5512218293917013125 / 562949953421312) = 9792"
  using rhe_cert[of "5512218293917013125 / 562949953421312" "9792"] by simp

lemma aged_oon_positive: "positive_contributions (default_probs\<lparr>favorite := lit 1\<rparr>) = Fin 1"
  by (simp add: positive_contributions_def default_probs_def FAVORITE_def REPLY_def REPOST_def
        QUOTE_def FOLLOW_AUTHOR_def VIDEO_VIEW_def PROFILE_CLICK_def SHARE_def DM_SHARE_def
        LINK_COPY_def DWELL_TIME_def PHOTO_EXPAND_def CONTENT_CLICK_def lit_def rnd_vals)

lemma aged_oon_negative: "negative_contributions (default_probs\<lparr>favorite := lit 1\<rparr>) = Fin 0"
  by (simp add: negative_contributions_def default_probs_def NOT_INTERESTED_def BLOCK_def
        MUTE_def REPORT_def lit_def rnd_vals)

lemma aged_oon_score:
  "calculate_score
     (default_probs\<lparr>favorite := lit 1\<rparr>)
     (default_modifiers\<lparr>is_out_of_network := True, post_age_hours := lit 1\<rparr>) =
     Inr \<lparr>final_score = lit (6854/10000), positive_score = lit 1, negative_score = lit 0,
         diversity_multiplier = lit 1, oon_multiplier = lit (7/10), age_multiplier = lit (9792/10000),
         video_bonus_applied = False,
         interpretation_str = ''MODERATE REACH: Content should reach some users'',
         recommendations =
           [''Out-of-network content receives ~30% penalty. Build your follower base.'',
            ''Consider adding native video for additional algorithmic boost.'',
            ''Low shareability. Create content worth sharing privately.'']\<rparr>"
  by (simp only: calculate_score_def aged_oon_positive aged_oon_negative)
     (simp add: diversity_values
        calculate_age_multiplier_def generate_recommendations_def interpret_score_def
        default_probs_def default_modifiers_def OON_PENALTY_def VIDEO_BONUS_def
        fsub_def fgt_def fge_def fle_def feq_def pymax_def Let_def str_int_def lit_def rnd_neg rnd_vals rhe_vals)


lemma liked_positive: "positive_contributions (default_probs\<lparr>favorite := lit 1\<rparr>) = Fin 1"
  by (simp add: positive_contributions_def default_probs_def FAVORITE_def REPLY_def REPOST_def
        QUOTE_def FOLLOW_AUTHOR_def VIDEO_VIEW_def PROFILE_CLICK_def SHARE_def DM_SHARE_def
        LINK_COPY_def DWELL_TIME_def PHOTO_EXPAND_def CONTENT_CLICK_def lit_def rnd_vals)

lemma liked_negative: "negative_contributions (default_probs\<lparr>favorite := lit 1\<rparr>) = Fin 0"
  by (simp add: negative_contributions_def default_probs_def NOT_INTERESTED_def BLOCK_def
        MUTE_def REPORT_def lit_def rnd_vals)

lemma liked_score:
  "calculate_score
     (default_probs\<lparr>favorite := lit 1\<rparr>)
     (default_modifiers) =
     Inr \<lparr>final_score = lit 1, positive_score = lit 1, negative_score = lit 0,
         diversity_multiplier = lit 1, oon_multiplier = lit 1, age_multiplier = lit 1,
         video_bonus_applied = False,
         interpretation_str = ''GOOD REACH: Content is well-positioned in the algorithm'',
         recommendations =
           [''Consider adding native video for additional algorithmic boost.'',
            ''Low shareability. Create content worth sharing privately.'']\<rparr>"
  by (simp only: calculate_score_def liked_positive liked_negative)
     (simp add: diversity_values
        calculate_age_multiplier_def generate_recommendations_def interpret_score_def
        default_probs_def default_modifiers_def OON_PENALTY_def VIDEO_BONUS_def
        fsub_def fgt_def fge_def fle_def feq_def pymax_def Let_def str_int_def lit_def rnd_neg rnd_vals rhe_vals)

lemma video_r1 [rnd_vals]: "rnd (26120877838748877 / 18014398509481984) = Fin (6530219459687219 / 4503599627370496)"
  using rnd_cert[of "26120877838748877 / 18014398509481984" "0" 6530219459687219] by simp

lemma video_r2 [rnd_vals]: "rnd (6530219459687219 / 4503599627370496) = Fin (6530219459687219 / 4503599627370496)"
  using rnd_cert[of "6530219459687219 / 4503599627370496" "0" 6530219459687219] by simp

lemma video_r3 [rnd_vals]: "rnd (16910459007044578392008171674665 / 10141204801825835211973625643008) = Fin (7509752378640301 / 4503599627370496)"
  using rnd_cert[of "16910459007044578392008171674665 / 10141204801825835211973625643008" "0" 7509752378640301] by simp

lemma video_r4 [rnd_vals]: "rnd (7509752378640301 / 4503599627370496) = Fin (7509752378640301 / 4503599627370496)"
  using rnd_cert[of "7509752378640301 / 4503599627370496" "0" 7509752378640301] by simp

lemma video_r5 [rnd_vals]: "rnd (667 / 400) = Fin (3754876189320151 / 2251799813685248)"
  using rnd_cert[of "667 / 400" "0" 7509752378640302] by simp

lemma video_h1 [rhe_vals]: "round_half_even (4693595236650188125 / 281474976710656) = 16675"
  using rhe_cert[of "4693595236650188125 / 281474976710656" "16675"] by simp

lemma video_positive: "positive_contributions (default_probs\<lparr>favorite := lit 1, video_view := lit (5/10)\<rparr>) = Fin (6530219459687219 / 4503599627370496)"
  by (simp add: positive_contributions_def default_probs_def FAVORITE_def REPLY_def REPOST_def
        QUOTE_def FOLLOW_AUTHOR_def VIDEO_VIEW_def PROFILE_CLICK_def SHARE_def DM_SHARE_def
        LINK_COPY_def DWELL_TIME_def PHOTO_EXPAND_def CONTENT_CLICK_def lit_def rnd_vals)

lemma video_negative: "negative_contributions (default_probs\<lparr>favorite := lit 1, video_view := lit (5/10)\<rparr>) = Fin 0"
  by (simp add: negative_contributions_def default_probs_def NOT_INTERESTED_def BLOCK_def
        MUTE_def REPORT_def lit_def rnd_vals)

lemma video_score:
  "calculate_score
     (default_probs\<lparr>favorite := lit 1, video_view := lit (5/10)\<rparr>)
     (default_modifiers\<lparr>has_video := True\<rparr>) =
     Inr \<lparr>final_score = lit (16675/10000), positive_score = lit (16675/10000), negative_score = lit 0,
         diversity_multiplier = lit 1, oon_multiplier = lit 1, age_multiplier = lit 1,
         video_bonus_applied = True,
         interpretation_str = ''EXCELLENT REACH: Content optimized for strong distribution'',
         recommendations =
           [''Low shareability. Create content worth sharing privately.'']\<rparr>"
  by (simp only: calculate_score_def video_positive video_negative)
     (simp add: diversity_values
        calculate_age_multiplier_def generate_recommendations_def interpret_score_def
        default_probs_def default_modifiers_def OON_PENALTY_def VIDEO_BONUS_def
        fsub_def fgt_def fge_def fle_def feq_def pymax_def Let_def str_int_def lit_def rnd_neg rnd_vals rhe_vals)

lemma optimized_r1 [rnd_vals]: "rnd (3602879701896397 / 4503599627370496) = Fin (3602879701896397 / 4503599627370496)"
  using rnd_cert[of "3602879701896397 / 4503599627370496" "-1" 7205759403792794] by simp

lemma optimized_r2 [rnd_vals]: "rnd (8106479329266893 / 4503599627370496) = Fin (8106479329266893 / 4503599627370496)"
  using rnd_cert[of "8106479329266893 / 4503599627370496" "0" 8106479329266893] by simp

lemma optimized_r3 [rnd_vals]: "rnd (3602879701896397 / 9007199254740992) = Fin (3602879701896397 / 9007199254740992)"
  using rnd_cert[of "3602879701896397 / 9007199254740992" "-2" 7205759403792794] by simp

lemma optimized_r4 [rnd_vals]: "rnd (19815838360430183 / 9007199254740992) = Fin (2476979795053773 / 1125899906842624)"
  using rnd_cert[of "19815838360430183 / 9007199254740992" "1" 4953959590107546] by simp

lemma optimized_r5 [rnd_vals]: "rnd (2476979795053773 / 1125899906842624) = Fin (2476979795053773 / 1125899906842624)"
  using rnd_cert[of "2476979795053773 / 1125899906842624" "1" 4953959590107546] by simp

lemma optimized_r6 [rnd_vals]: "rnd (11 / 5) = Fin (2476979795053773 / 1125899906842624)"
  using rnd_cert[of "11 / 5" "1" 4953959590107546] by simp

lemma optimized_h1 [rhe_vals]: "round_half_even (1548112371908608125 / 70368744177664) = 22000"
  using rhe_cert[of "1548112371908608125 / 70368744177664" "22000"] by simp

lemma optimized_positive: "positive_contributions (default_probs\<lparr>favorite := lit 1, reply := lit 1, share := lit 1\<rparr>) = Fin (2476979795053773 / 1125899906842624)"
  by (simp add: positive_contributions_def default_probs_def FAVORITE_def REPLY_def REPOST_def
        QUOTE_def FOLLOW_AUTHOR_def VIDEO_VIEW_def PROFILE_CLICK_def SHARE_def DM_SHARE_def
        LINK_COPY_def DWELL_TIME_def PHOTO_EXPAND_def CONTENT_CLICK_def lit_def rnd_vals)

lemma optimized_negative: "negative_contributions (default_probs\<lparr>favorite := lit 1, reply := lit 1, share := lit 1\<rparr>) = Fin 0"
  by (simp add: negative_contributions_def default_probs_def NOT_INTERESTED_def BLOCK_def
        MUTE_def REPORT_def lit_def rnd_vals)

lemma optimized_score:
  "calculate_score
     (default_probs\<lparr>favorite := lit 1, reply := lit 1, share := lit 1\<rparr>)
     (default_modifiers\<lparr>has_video := True\<rparr>) =
     Inr \<lparr>final_score = lit (22/10), positive_score = lit (22/10), negative_score = lit 0,
         diversity_multiplier = lit 1, oon_multiplier = lit 1, age_multiplier = lit 1,
         video_bonus_applied = False,
         interpretation_str = ''VIRAL POTENTIAL: Content has maximum algorithmic support'',
         recommendations =
           [''Content is well-optimized! Continue this approach.'']\<rparr>"
  by (simp only: calculate_score_def optimized_positive optimized_negative)
     (simp add: diversity_values
        calculate_age_multiplier_def generate_recommendations_def interpret_score_def
        default_probs_def default_modifiers_def OON_PENALTY_def VIDEO_BONUS_def
        fsub_def fgt_def fge_def fle_def feq_def pymax_def Let_def str_int_def lit_def rnd_neg rnd_vals rhe_vals)

lemma all_rules_r1 [rnd_vals]: "rnd 30 = Fin 30"
  using rnd_cert[of "30" "4" 8444249301319680] by simp

lemma all_rules_r2 [rnd_vals]: "rnd (19471113219505603967277331424215 / 162259276829213363391578010288128) = Fin (1080863910568919 / 9007199254740992)"
  using rnd_cert[of "19471113219505603967277331424215 / 162259276829213363391578010288128" "-4" 8646911284551352] by simp

lemma all_rules_r3 [rnd_vals]: "rnd (10808639105689191 / 72057594037927936) = Fin (1351079888211149 / 9007199254740992)"
  using rnd_cert_tie[of "10808639105689191 / 72057594037927936" "-3" 5404319552844596] by simp

lemma all_rules_r4 [rnd_vals]: "rnd (607985949695017 / 2251799813685248) = Fin (607985949695017 / 2251799813685248)"
  using rnd_cert[of "607985949695017 / 2251799813685248" "-2" 4863887597560136] by simp

lemma all_rules_r7 [rnd_vals]: "rnd (5 / 8) = Fin (5 / 8)"
  using rnd_cert[of "5 / 8" "-1" 5629499534213120] by simp

lemma all_rules_r8 [rnd_vals]: "rnd (3 / 8) = Fin (3 / 8)"
  using rnd_cert[of "3 / 8" "-2" 6755399441055744] by simp

lemma all_rules_r9 [rnd_vals]: "rnd (2190500237194380671498681153749 / 81129638414606681695789005144064) = Fin (3891110078048109 / 144115188075855872)"
  using rnd_cert[of "2190500237194380671498681153749 / 81129638414606681695789005144064" "-6" 7782220156096218] by simp

lemma all_rules_r10 [rnd_vals]: "rnd (12266801328288530931730283024823 / 649037107316853453566312041152512) = Fin (680944263658419 / 36028797018963968)"
  using rnd_cert[of "12266801328288530931730283024823 / 649037107316853453566312041152512" "-6" 5447554109267352] by simp

lemma all_rules_r11 [rnd_vals]: "rnd (2042832790975257 / 288230376151711744) = Fin (2042832790975257 / 288230376151711744)"
  using rnd_cert[of "2042832790975257 / 288230376151711744" "-8" 8171331163901028] by simp

lemma all_rules_r12 [rnd_vals]: "rnd (71 / 10000) = Fin (4092871341354307 / 576460752303423488)"
  using rnd_cert[of "71 / 10000" "-8" 8185742682708614] by simp

lemma all_rules_r13 [rnd_vals]: "rnd (27 / 100) = Fin (607985949695017 / 2251799813685248)"
  using rnd_cert[of "27 / 100" "-2" 4863887597560136] by simp

lemma all_rules_h1 [rhe_vals]: "round_half_even (- (1276770494359535625 / 18014398509481984)) = (- 71)"
  using rhe_cert[of "- (1276770494359535625 / 18014398509481984)" "- 71"] by simp

lemma all_rules_h2 [rhe_vals]: "round_half_even (379991218559385625 / 140737488355328) = 2700"
  using rhe_cert[of "379991218559385625 / 140737488355328" "2700"] by simp

lemma all_rules_h3 [rhe_vals]: "round_half_even (2251799813685248125 / 2251799813685248) = 1000"
  using rhe_cert[of "2251799813685248125 / 2251799813685248" "1000"] by simp

lemma all_rules_positive: "positive_contributions (default_probs\<lparr>not_interested := lit (2/10), block := lit (1/10)\<rparr>) = Fin 0"
  by (simp add: positive_contributions_def default_probs_def FAVORITE_def REPLY_def REPOST_def
        QUOTE_def FOLLOW_AUTHOR_def VIDEO_VIEW_def PROFILE_CLICK_def SHARE_def DM_SHARE_def
        LINK_COPY_def DWELL_TIME_def PHOTO_EXPAND_def CONTENT_CLICK_def lit_def rnd_vals)

lemma all_rules_negative: "negative_contributions (default_probs\<lparr>not_interested := lit (2/10), block := lit (1/10)\<rparr>) = Fin (607985949695017 / 2251799813685248)"
  by (simp add: negative_contributions_def default_probs_def NOT_INTERESTED_def BLOCK_def
        MUTE_def REPORT_def lit_def rnd_vals)

lemma all_rules_score:
  "calculate_score
     (default_probs\<lparr>not_interested := lit (2/10), block := lit (1/10)\<rparr>)
     (default_modifiers\<lparr>is_out_of_network := True, post_position := 13, post_age_hours := lit 30\<rparr>) =
     Inr \<lparr>final_score = lit (- (71/10000)), positive_score = lit 0, negative_score = lit (27/100),
         diversity_multiplier = lit (1/10), oon_multiplier = lit (7/10), age_multiplier = lit (375/1000),
         video_bonus_applied = False,
         interpretation_str = ''LOW REACH: Content likely to be suppressed significantly'',
         recommendations =
           [''WARNING: High negative signal probability. Review content for controversial elements.'',
            ''Consider making content more engaging or relevant to your audience.'',
            ''You're on post #13 today. Consider spacing posts for better reach.'',
            ''Out-of-network content receives ~30% penalty. Build your follower base.'',
            ''Post is aging. Content has best reach within first 24 hours.'',
            ''Consider adding native video for additional algorithmic boost.'',
            ''Low predicted likes. Focus on creating more likeable content (primary metric).'',
            ''Low shareability. Create content worth sharing privately.'']\<rparr>"
  by (simp only: calculate_score_def all_rules_positive all_rules_negative)
     (simp add: diversity_values
        calculate_age_multiplier_def generate_recommendations_def interpret_score_def
        default_probs_def default_modifiers_def OON_PENALTY_def VIDEO_BONUS_def
        fsub_def fgt_def fge_def fle_def feq_def pymax_def Let_def str_int_def lit_def rnd_neg rnd_vals rhe_vals)

lemma boundary_r1 [rnd_vals]: "rnd (7499 / 25000) = Fin (675449872113027 / 2251799813685248)"
  using rnd_cert[of "7499 / 25000" "-2" 5403598976904216] by simp

lemma boundary_r2 [rnd_vals]: "rnd (675449872113027 / 2251799813685248) = Fin (675449872113027 / 2251799813685248)"
  using rnd_cert[of "675449872113027 / 2251799813685248" "-2" 5403598976904216] by simp

lemma boundary_h1 [rhe_vals]: "round_half_even (422156170070641875 / 140737488355328) = 3000"
  using rhe_cert[of "422156170070641875 / 140737488355328" "3000"] by simp

lemma boundary_positive: "positive_contributions (default_probs\<lparr>favorite := lit (29996/100000)\<rparr>) = Fin (675449872113027 / 2251799813685248)"
  by (simp add: positive_contributions_def default_probs_def FAVORITE_def REPLY_def REPOST_def
        QUOTE_def FOLLOW_AUTHOR_def VIDEO_VIEW_def PROFILE_CLICK_def SHARE_def DM_SHARE_def
        LINK_COPY_def DWELL_TIME_def PHOTO_EXPAND_def CONTENT_CLICK_def lit_def rnd_vals)

lemma boundary_negative: "negative_contributions (default_probs\<lparr>favorite := lit (29996/100000)\<rparr>) = Fin 0"
  by (simp add: negative_contributions_def default_probs_def NOT_INTERESTED_def BLOCK_def
        MUTE_def REPORT_def lit_def rnd_vals)

lemma boundary_score:
  "calculate_score
     (default_probs\<lparr>favorite := lit (29996/100000)\<rparr>)
     (default_modifiers) =
     Inr \<lparr>final_score = lit (3/10), positive_score = lit (3/10), negative_score = lit 0,
         diversity_multiplier = lit 1, oon_multiplier = lit 1, age_multiplier = lit 1,
         video_bonus_applied = False,
         interpretation_str = ''LOW REACH: Content likely to be suppressed significantly'',
         recommendations =
           [''Consider adding native video for additional algorithmic boost.'',
            ''Low predicted likes. Focus on creating more likeable content (primary metric).'',
            ''Low shareability. Create content worth sharing privately.'']\<rparr>"
  by (simp only: calculate_score_def boundary_positive boundary_negative)
     (simp add: diversity_values
        calculate_age_multiplier_def generate_recommendations_def interpret_score_def
        default_probs_def default_modifiers_def OON_PENALTY_def VIDEO_BONUS_def
        fsub_def fgt_def fge_def fle_def feq_def pymax_def Let_def str_int_def lit_def rnd_neg rnd_vals rhe_vals)

section \<open>The score identity\<close>

text \<open>
  Claim C1, as amended. Whenever \<^verbatim>\<open>calculate_score\<close> returns, the quantities it computes
  satisfy final = (positive - negative) * diversity * oon * age in float arithmetic, where
  positive includes the 1.15 video bonus when it was applied, and each of the six numeric
  fields of the result is the corresponding quantity rounded to 4 decimal places. The identity
  is one between the quantities before rounding; it is not claimed of the rounded fields.
\<close>

theorem score_identity_before_rounding:
  "(calculate_score probs modifiers = Inr r \<longrightarrow>
     (\<exists>positive negative diversity oon age.
        positive = (if video_bonus_applied r
                    then fmul (positive_contributions probs) VIDEO_BONUS
                    else positive_contributions probs) \<and>
        negative = negative_contributions probs \<and>
        calculate_diversity_multiplier (post_position modifiers) = Inr diversity \<and>
        oon = (if is_out_of_network modifiers then OON_PENALTY else lit 1) \<and>
        calculate_age_multiplier (post_age_hours modifiers) = Inr age \<and>
        final_score r = round4 (fmul (fmul (fmul (fsub positive negative) diversity) oon) age) \<and>
        positive_score r = round4 positive \<and>
        negative_score r = round4 negative \<and>
        diversity_multiplier r = round4 diversity \<and>
        oon_multiplier r = round4 oon \<and>
        age_multiplier r = round4 age)) \<and>
   VIDEO_BONUS = lit (115/100)"
proof -
  have "calculate_score probs modifiers = Inr r \<Longrightarrow>
     (\<exists>positive negative diversity oon age.
        positive = (if video_bonus_applied r
                    then fmul (positive_contributions probs) VIDEO_BONUS
                    else positive_contributions probs) \<and>
        negative = negative_contributions probs \<and>
        calculate_diversity_multiplier (post_position modifiers) = Inr diversity \<and>
        oon = (if is_out_of_network modifiers then OON_PENALTY else lit 1) \<and>
        calculate_age_multiplier (post_age_hours modifiers) = Inr age \<and>
        final_score r = round4 (fmul (fmul (fmul (fsub positive negative) diversity) oon) age) \<and>
        positive_score r = round4 positive \<and>
        negative_score r = round4 negative \<and>
        diversity_multiplier r = round4 diversity \<and>
        oon_multiplier r = round4 oon \<and>
        age_multiplier r = round4 age)"
  proof -
    assume "calculate_score probs modifiers = Inr r"
    then obtain d a where da:
      "calculate_diversity_multiplier (post_position modifiers) = Inr d"
      "calculate_age_multiplier (post_age_hours modifiers) = Inr a"
      and r: "r = (let bonus = (has_video modifiers \<and> fgt (video_view probs) (Fin 0));
                    positive = (if bonus then fmul (positive_contributions probs) VIDEO_BONUS
                                else positive_contributions probs);
                    negative = negative_contributions probs;
                    oon = (if is_out_of_network modifiers then OON_PENALTY else lit 1);
                    final = fmul (fmul (fmul (fsub positive negative) d) oon) a
                in \<lparr>final_score = round4 final, positive_score = round4 positive,
                     negative_score = round4 negative, diversity_multiplier = round4 d,
                     oon_multiplier = round4 oon, age_multiplier = round4 a,
                     video_bonus_applied = bonus,
                     interpretation_str = interpret_score final positive negative,
                     recommendations = generate_recommendations probs modifiers final\<rparr>)"
      using calculate_score_result by blast
    show ?thesis using da by (simp add: r Let_def)
  qed
  then show ?thesis by (simp add: VIDEO_BONUS_def)
qed

text \<open>
  A post liked with probability 1.0, out of network, one hour old.
\<close>

theorem score_identity_before_rounding_witness:
  "\<exists>r. calculate_score
          (default_probs\<lparr>favorite := lit 1\<rparr>)
          (default_modifiers\<lparr>is_out_of_network := True, post_age_hours := lit 1\<rparr>) = Inr r \<and>
     (\<exists>positive negative diversity oon age.
        positive = (if video_bonus_applied r
                    then fmul (positive_contributions (default_probs\<lparr>favorite := lit 1\<rparr>)) VIDEO_BONUS
                    else positive_contributions (default_probs\<lparr>favorite := lit 1\<rparr>)) \<and>
        negative = negative_contributions (default_probs\<lparr>favorite := lit 1\<rparr>) \<and>
        calculate_diversity_multiplier
          (post_position (default_modifiers\<lparr>is_out_of_network := True, post_age_hours := lit 1\<rparr>))
          = Inr diversity \<and>
        oon = (if is_out_of_network
                    (default_modifiers\<lparr>is_out_of_network := True, post_age_hours := lit 1\<rparr>)
               then OON_PENALTY else lit 1) \<and>
        calculate_age_multiplier
          (post_age_hours (default_modifiers\<lparr>is_out_of_network := True, post_age_hours := lit 1\<rparr>))
          = Inr age \<and>
        final_score r = round4 (fmul (fmul (fmul (fsub positive negative) diversity) oon) age) \<and>
        positive_score r = round4 positive \<and>
        negative_score r = round4 negative \<and>
        diversity_multiplier r = round4 diversity \<and>
        oon_multiplier r = round4 oon \<and>
        age_multiplier r = round4 age)"
  (is "\<exists>r. ?returns r \<and> ?identity r")
proof -
  let ?r = "\<lparr>final_score = lit (6854/10000), positive_score = lit 1, negative_score = lit 0,
           diversity_multiplier = lit 1, oon_multiplier = lit (7/10), age_multiplier = lit (9792/10000),
           video_bonus_applied = False,
           interpretation_str = ''MODERATE REACH: Content should reach some users'',
           recommendations =
             [''Out-of-network content receives ~30% penalty. Build your follower base.'',
              ''Consider adding native video for additional algorithmic boost.'',
              ''Low shareability. Create content worth sharing privately.'']\<rparr>"
  have e: "?returns ?r" by (rule aged_oon_score)
  have "?returns ?r \<longrightarrow> ?identity ?r"
    using score_identity_before_rounding
            [of "default_probs\<lparr>favorite := lit 1\<rparr>"
                "default_modifiers\<lparr>is_out_of_network := True, post_age_hours := lit 1\<rparr>" ?r]
    by (rule conjunct1)
  then have "?identity ?r" using e by (rule mp)
  then show ?thesis using e by blast
qed

text \<open>
  The claim as stated, an identity between the returned fields, fails on that input: the
  result has \<^verbatim>\<open>final_score = 0.6854\<close>, while the product of its other fields,
  \<^verbatim>\<open>(1.0 - 0.0) * 1.0 * 0.7 * 0.9792\<close>, is \<^verbatim>\<open>0.6854399999999999\<close>.
\<close>

lemma fields_r1 [rnd_vals]: "rnd (27804749677453999031727673366513 / 40564819207303340847894502572032) = Fin (6173894657169665 / 9007199254740992)"
  using rnd_cert[of "27804749677453999031727673366513 / 40564819207303340847894502572032" "-1" 6173894657169665] by simp

lemma fields_r2 [rnd_vals]: "rnd (6854399999999999 / 10000000000000000) = Fin (6173894657169665 / 9007199254740992)"
  using rnd_cert[of "6854399999999999 / 10000000000000000" "-1" 6173894657169665] by simp


theorem rounded_fields_identity_counterexample:
  "calculate_score
     (default_probs\<lparr>favorite := lit 1\<rparr>)
     (default_modifiers\<lparr>is_out_of_network := True, post_age_hours := lit 1\<rparr>) =
     Inr \<lparr>final_score = lit (6854/10000), positive_score = lit 1, negative_score = lit 0,
         diversity_multiplier = lit 1, oon_multiplier = lit (7/10), age_multiplier = lit (9792/10000),
         video_bonus_applied = False,
         interpretation_str = ''MODERATE REACH: Content should reach some users'',
         recommendations =
           [''Out-of-network content receives ~30% penalty. Build your follower base.'',
            ''Consider adding native video for additional algorithmic boost.'',
            ''Low shareability. Create content worth sharing privately.'']\<rparr> \<and>
   fmul (fmul (fmul (fsub (lit 1) (lit 0)) (lit 1)) (lit (7/10))) (lit (9792/10000))
     = lit (6854399999999999/10000000000000000) \<and>
   lit (6854399999999999/10000000000000000) \<noteq> lit (6854/10000)"
  using aged_oon_score by (simp add: fsub_def lit_def rnd_vals)

section \<open>A post that is only liked\<close>

text \<open>
  Claim C2, as amended. Calling \<^verbatim>\<open>calculate_score\<close> with every probability 0 except
  favorite = 1.0, with post position 1, age 0, in network and without video, returns
  positive_score = 1.0 and final_score = 1.0, and the interpretation is the GOOD REACH text:
  the score 1.0 is not below 1.0, and it is below 1.5.
\<close>

theorem favorite_only_score:
  "\<exists>r. calculate_score (default_probs\<lparr>favorite := lit 1\<rparr>) default_modifiers = Inr r \<and>
        positive_score r = lit 1 \<and> final_score r = lit 1 \<and>
        interpretation_str r = ''GOOD REACH: Content is well-positioned in the algorithm''"
  using liked_score by simp

text \<open>
  The claim as stated names the MODERATE REACH text; the call returns the GOOD REACH one.
\<close>

theorem favorite_only_counterexample:
  "calculate_score (default_probs\<lparr>favorite := lit 1\<rparr>) default_modifiers =
     Inr \<lparr>final_score = lit 1, positive_score = lit 1, negative_score = lit 0,
           diversity_multiplier = lit 1, oon_multiplier = lit 1, age_multiplier = lit 1,
           video_bonus_applied = False,
           interpretation_str = ''GOOD REACH: Content is well-positioned in the algorithm'',
           recommendations =
             [''Consider adding native video for additional algorithmic boost.'',
              ''Low shareability. Create content worth sharing privately.'']\<rparr> \<and>
   ''GOOD REACH: Content is well-positioned in the algorithm''
     \<noteq> ''MODERATE REACH: Content should reach some users''"
  using liked_score by simp

section \<open>Interpretation and rounding\<close>

text \<open>
  Claim C10. For some input the returned interpretation is not that of the band holding the
  returned \<^verbatim>\<open>final_score\<close>: the interpretation is taken from the score before rounding.
  With favorite = 0.29996 and everything else at its default, the score 0.29996 is below 0.3
  and is read as LOW REACH, while the returned field is 0.3, whose band is MODERATE-LOW REACH.
\<close>

theorem rounding_crosses_band:
  "\<exists>r. calculate_score (default_probs\<lparr>favorite := lit (29996/100000)\<rparr>) default_modifiers = Inr r \<and>
        final_score r = lit (3/10) \<and>
        interpretation_str r = ''LOW REACH: Content likely to be suppressed significantly'' \<and>
        interpret_score (final_score r) (positive_score r) (negative_score r)
          = ''MODERATE-LOW REACH: Content will struggle to gain traction'' \<and>
        interpretation_str r
          \<noteq> interpret_score (final_score r) (positive_score r) (negative_score r)"
  using boundary_score by (simp add: interpret_score_def lit_def rnd_vals)

section \<open>Video bonus\<close>

text \<open>
  Claim C6. In \<^verbatim>\<open>calculate_score\<close> the video bonus fires exactly when
  \<^verbatim>\<open>modifiers.has_video\<close> is true and \<^verbatim>\<open>probs.video_view > 0\<close>: exactly then the
  positive score is multiplied by 1.15 and \<^verbatim>\<open>video_bonus_applied\<close> is true; in every
  other case \<^verbatim>\<open>video_bonus_applied\<close> is false and the positive score is the plain weighted
  sum. With \<^verbatim>\<open>has_video\<close> true and \<^verbatim>\<open>video_view = 0\<close> the call returns, without the
  bonus (for any post position the diversity multiplier accepts). The returned
  \<^verbatim>\<open>positive_score\<close> is the positive score rounded to 4 decimal places.
\<close>

theorem video_bonus_iff:
  "(calculate_score probs modifiers = Inr r \<longrightarrow>
      (video_bonus_applied r \<longleftrightarrow> has_video modifiers \<and> fgt (video_view probs) (Fin 0)) \<and>
      (video_bonus_applied r \<longrightarrow>
         positive_score r = round4 (fmul (positive_contributions probs) VIDEO_BONUS)) \<and>
      (\<not> video_bonus_applied r \<longrightarrow>
         positive_score r = round4 (positive_contributions probs))) \<and>
   (has_video modifiers \<and> feq (video_view probs) (Fin 0)
      \<and> post_position modifiers \<le> 2 ^ 1023 \<longrightarrow>
      (\<exists>r. calculate_score probs modifiers = Inr r \<and> \<not> video_bonus_applied r \<and>
           positive_score r = round4 (positive_contributions probs))) \<and>
   VIDEO_BONUS = lit (115/100)"
proof -
  have a: "calculate_score probs modifiers = Inr r \<longrightarrow>
      (video_bonus_applied r \<longleftrightarrow> has_video modifiers \<and> fgt (video_view probs) (Fin 0)) \<and>
      (video_bonus_applied r \<longrightarrow>
         positive_score r = round4 (fmul (positive_contributions probs) VIDEO_BONUS)) \<and>
      (\<not> video_bonus_applied r \<longrightarrow>
         positive_score r = round4 (positive_contributions probs))"
  proof
    assume "calculate_score probs modifiers = Inr r"
    then obtain d a where
      "r = (let bonus = (has_video modifiers \<and> fgt (video_view probs) (Fin 0));
                    positive = (if bonus then fmul (positive_contributions probs) VIDEO_BONUS
                                else positive_contributions probs);
                    negative = negative_contributions probs;
                    oon = (if is_out_of_network modifiers then OON_PENALTY else lit 1);
                    final = fmul (fmul (fmul (fsub positive negative) d) oon) a
                in \<lparr>final_score = round4 final, positive_score = round4 positive,
                     negative_score = round4 negative, diversity_multiplier = round4 d,
                     oon_multiplier = round4 oon, age_multiplier = round4 a,
                     video_bonus_applied = bonus,
                     interpretation_str = interpret_score final positive negative,
                     recommendations = generate_recommendations probs modifiers final\<rparr>)"
      using calculate_score_result by blast
    then show "(video_bonus_applied r \<longleftrightarrow> has_video modifiers \<and> fgt (video_view probs) (Fin 0)) \<and>
      (video_bonus_applied r \<longrightarrow>
         positive_score r = round4 (fmul (positive_contributions probs) VIDEO_BONUS)) \<and>
      (\<not> video_bonus_applied r \<longrightarrow>
         positive_score r = round4 (positive_contributions probs))"
      by (simp add: Let_def)
  qed
  have b: "has_video modifiers \<and> feq (video_view probs) (Fin 0)
      \<and> post_position modifiers \<le> 2 ^ 1023 \<longrightarrow>
      (\<exists>r. calculate_score probs modifiers = Inr r \<and> \<not> video_bonus_applied r \<and>
           positive_score r = round4 (positive_contributions probs))"
  proof
    assume h: "has_video modifiers \<and> feq (video_view probs) (Fin 0)
      \<and> post_position modifiers \<le> 2 ^ 1023"
    then obtain r where r: "calculate_score probs modifiers = Inr r"
      using calculate_score_total by blast
    then obtain d a where
      "r = (let bonus = (has_video modifiers \<and> fgt (video_view probs) (Fin 0));
                    positive = (if bonus then fmul (positive_contributions probs) VIDEO_BONUS
                                else positive_contributions probs);
                    negative = negative_contributions probs;
                    oon = (if is_out_of_network modifiers then OON_PENALTY else lit 1);
                    final = fmul (fmul (fmul (fsub positive negative) d) oon) a
                in \<lparr>final_score = round4 final, positive_score = round4 positive,
                     negative_score = round4 negative, diversity_multiplier = round4 d,
                     oon_multiplier = round4 oon, age_multiplier = round4 a,
                     video_bonus_applied = bonus,
                     interpretation_str = interpret_score final positive negative,
                     recommendations = generate_recommendations probs modifiers final\<rparr>)"
      using calculate_score_result by blast
    moreover have "\<not> fgt (video_view probs) (Fin 0)" using h by (simp add: feq_def fgt_def)
    ultimately have "\<not> video_bonus_applied r \<and>
           positive_score r = round4 (positive_contributions probs)"
      by (simp add: Let_def)
    then show "\<exists>r. calculate_score probs modifiers = Inr r \<and> \<not> video_bonus_applied r \<and>
           positive_score r = round4 (positive_contributions probs)"
      using r by blast
  qed
  show ?thesis using a b by (simp add: VIDEO_BONUS_def)
qed

text \<open>
  A liked post with video watched with probability 0.5, where the bonus applies, and a post
  with the video flag but \<^verbatim>\<open>video_view = 0\<close>, where it does not.
\<close>

theorem video_bonus_iff_witness:
  "calculate_score
     (default_probs\<lparr>favorite := lit 1, video_view := lit (5/10)\<rparr>)
     (default_modifiers\<lparr>has_video := True\<rparr>) =
     Inr \<lparr>final_score = lit (16675/10000), positive_score = lit (16675/10000), negative_score = lit 0,
           diversity_multiplier = lit 1, oon_multiplier = lit 1, age_multiplier = lit 1,
           video_bonus_applied = True,
           interpretation_str = ''EXCELLENT REACH: Content optimized for strong distribution'',
           recommendations =
             [''Low shareability. Create content worth sharing privately.'']\<rparr> \<and>
   lit (16675/10000)
     = round4 (fmul (positive_contributions (default_probs\<lparr>favorite := lit 1, video_view := lit (5/10)\<rparr>)) VIDEO_BONUS) \<and>
   (\<exists>r. calculate_score
          (default_probs\<lparr>favorite := lit 1, reply := lit 1, share := lit 1\<rparr>)
          (default_modifiers\<lparr>has_video := True\<rparr>) = Inr r \<and>
        \<not> video_bonus_applied r \<and>
        positive_score r
          = round4 (positive_contributions (default_probs\<lparr>favorite := lit 1, reply := lit 1, share := lit 1\<rparr>)))"
proof -
  let ?r = "\<lparr>final_score = lit (16675/10000), positive_score = lit (16675/10000), negative_score = lit 0,
           diversity_multiplier = lit 1, oon_multiplier = lit 1, age_multiplier = lit 1,
           video_bonus_applied = True,
           interpretation_str = ''EXCELLENT REACH: Content optimized for strong distribution'',
           recommendations =
             [''Low shareability. Create content worth sharing privately.'']\<rparr>"
  have e: "calculate_score
     (default_probs\<lparr>favorite := lit 1, video_view := lit (5/10)\<rparr>)
     (default_modifiers\<lparr>has_video := True\<rparr>) = Inr ?r"
    by (rule video_score)
  have "positive_score ?r
          = round4 (fmul (positive_contributions (default_probs\<lparr>favorite := lit 1, video_view := lit (5/10)\<rparr>)) VIDEO_BONUS)"
    using e video_bonus_iff
            [of "default_probs\<lparr>favorite := lit 1, video_view := lit (5/10)\<rparr>"
                "default_modifiers\<lparr>has_video := True\<rparr>" ?r]
    by simp
  moreover have "\<exists>r. calculate_score
          (default_probs\<lparr>favorite := lit 1, reply := lit 1, share := lit 1\<rparr>)
          (default_modifiers\<lparr>has_video := True\<rparr>) = Inr r \<and>
        \<not> video_bonus_applied r \<and>
        positive_score r
          = round4 (positive_contributions (default_probs\<lparr>favorite := lit 1, reply := lit 1, share := lit 1\<rparr>))"
    using video_bonus_iff
            [of "default_probs\<lparr>favorite := lit 1, reply := lit 1, share := lit 1\<rparr>"
                "default_modifiers\<lparr>has_video := True\<rparr>"]
    by (simp add: default_modifiers_def default_probs_def feq_def lit_def)
  ultimately show ?thesis using e by simp
qed

section \<open>Recommendations\<close>

text \<open>
  The code appends to one list, rule after rule. Each step adds a list of at most one
  message, so the whole is the messages of the rules that hold, in the order of the rules.
\<close>

lemma append_if_one: "(if c then xs @ [m] else xs) = xs @ (if c then [m] else [])"
  by simp

lemma filter_fst_Cons:
  "map snd (filter fst ((c, m) # rules)) = (if c then [m] else []) @ map snd (filter fst rules)"
  by simp

lemma last_rule:
  "xs @ (if A \<and> length xs = 0 then [w] else []) = (if A \<and> xs = [] then [w] else xs)"
  by auto

lemma generate_recommendations_spec:
  "generate_recommendations probs modifiers final = recommendations_spec probs modifiers final"
  unfolding generate_recommendations_def recommendations_spec_def recommendation_rules_def
  apply (simp only: append_if_one filter_fst_Cons)
  apply (simp only: Let_def last_rule)
  apply (simp only: append_Nil append_Nil2 append_assoc list.map filter.simps)
  done


text \<open>
  The call returns whenever the diversity multiplier does, and the list it returns is the one
  \<^verbatim>\<open>_generate_recommendations\<close> builds from the score before rounding.
\<close>

lemma calculate_score_returns:
  assumes "calculate_diversity_multiplier (post_position modifiers) = Inr d"
  shows "\<exists>r. calculate_score probs modifiers = Inr r"
proof -
  obtain a where a: "calculate_age_multiplier (post_age_hours modifiers) = Inr a"
    using calculate_age_multiplier_total by blast
  show ?thesis by (simp add: calculate_score_def Let_def assms a)
qed

lemma calculate_score_recommendations:
  assumes "calculate_score probs modifiers = Inr r"
  shows "\<exists>final. final_score r = round4 final \<and>
           recommendations r = recommendations_spec probs modifiers final"
proof -
  obtain d a where
    "r = (let bonus = (has_video modifiers \<and> fgt (video_view probs) (Fin 0));
                  positive = (if bonus then fmul (positive_contributions probs) VIDEO_BONUS
                              else positive_contributions probs);
                  negative = negative_contributions probs;
                  oon = (if is_out_of_network modifiers then OON_PENALTY else lit 1);
                  final = fmul (fmul (fmul (fsub positive negative) d) oon) a
              in \<lparr>final_score = round4 final, positive_score = round4 positive,
                   negative_score = round4 negative, diversity_multiplier = round4 d,
                   oon_multiplier = round4 oon, age_multiplier = round4 a,
                   video_bonus_applied = bonus,
                   interpretation_str = interpret_score final positive negative,
                   recommendations = generate_recommendations probs modifiers final\<rparr>)"
    using assms calculate_score_result by blast
  then have "final_score r = round4 (fmul (fmul (fmul (fsub
                 (if has_video modifiers \<and> fgt (video_view probs) (Fin 0)
                  then fmul (positive_contributions probs) VIDEO_BONUS
                  else positive_contributions probs)
                 (negative_contributions probs)) d)
                 (if is_out_of_network modifiers then OON_PENALTY else lit 1)) a) \<and>
             recommendations r = recommendations_spec probs modifiers
               (fmul (fmul (fmul (fsub
                 (if has_video modifiers \<and> fgt (video_view probs) (Fin 0)
                  then fmul (positive_contributions probs) VIDEO_BONUS
                  else positive_contributions probs)
                 (negative_contributions probs)) d)
                 (if is_out_of_network modifiers then OON_PENALTY else lit 1)) a)"
    by (simp add: Let_def generate_recommendations_spec)
  then show ?thesis by blast
qed

text \<open>
  Claim C9. The recommendations returned by \<^verbatim>\<open>calculate_score\<close> come from eight
  independent rules evaluated in the order of the specification (negative-signal warning;
  not_interested advice; spacing advice with the numeric position when post_position > 2;
  out-of-network advice; aging advice when post_age_hours > 24; the video suggestion when
  has_video is false and video_view == 0; likeability advice when favorite < 0.3;
  shareability advice when share < 0.05 and dm_share < 0.02), each appending when its
  condition holds, with no deduplication; and when final_score > 1.5 and no rule fired, the
  list is the single well-optimized message. The call returns such a list whenever the
  diversity multiplier returns, in particular for every post position up to \<open>2^1023\<close>.
  The list is computed from the score before rounding; a returned \<^verbatim>\<open>final_score\<close>
  above 1.5 implies that score is above 1.5.
\<close>

theorem recommendations_follow_rules:
  "length (recommendation_rules probs modifiers) = 8 \<and>
   generate_recommendations probs modifiers final = recommendations_spec probs modifiers final \<and>
   ((\<exists>d. calculate_diversity_multiplier (post_position modifiers) = Inr d) \<longrightarrow>
      (\<exists>r final. calculate_score probs modifiers = Inr r \<and> final_score r = round4 final \<and>
                 recommendations r = recommendations_spec probs modifiers final)) \<and>
   (post_position modifiers \<le> 2 ^ 1023 \<longrightarrow>
      (\<exists>r final. calculate_score probs modifiers = Inr r \<and> final_score r = round4 final \<and>
                 recommendations r = recommendations_spec probs modifiers final)) \<and>
   (calculate_score probs modifiers = Inr r \<longrightarrow>
      (\<exists>final. final_score r = round4 final \<and>
               recommendations r = recommendations_spec probs modifiers final)) \<and>
   (calculate_score probs modifiers = Inr r \<and> fgt (final_score r) (lit (15/10)) \<and>
    filter fst (recommendation_rules probs modifiers) = [] \<longrightarrow>
      recommendations r = [''Content is well-optimized! Continue this approach.''])"
proof -
  have a: "length (recommendation_rules probs modifiers) = 8"
    by (simp add: recommendation_rules_def)
  have b: "generate_recommendations probs modifiers final
             = recommendations_spec probs modifiers final"
    by (rule generate_recommendations_spec)
  have t1: "\<exists>r final. calculate_score probs modifiers = Inr r \<and> final_score r = round4 final \<and>
                 recommendations r = recommendations_spec probs modifiers final"
    if h: "\<exists>d. calculate_diversity_multiplier (post_position modifiers) = Inr d"
  proof -
    obtain r where r: "calculate_score probs modifiers = Inr r"
      using h calculate_score_returns by blast
    then show ?thesis using calculate_score_recommendations by blast
  qed
  have t2: "\<exists>r final. calculate_score probs modifiers = Inr r \<and> final_score r = round4 final \<and>
                 recommendations r = recommendations_spec probs modifiers final"
    if h: "post_position modifiers \<le> 2 ^ 1023"
  proof -
    obtain r where r: "calculate_score probs modifiers = Inr r"
      using h calculate_score_total by blast
    then show ?thesis using calculate_score_recommendations by blast
  qed
  have c: "\<exists>final. final_score r = round4 final \<and>
               recommendations r = recommendations_spec probs modifiers final"
    if "calculate_score probs modifiers = Inr r"
    using that by (rule calculate_score_recommendations)
  have d: "recommendations r = [''Content is well-optimized! Continue this approach.'']"
    if h: "calculate_score probs modifiers = Inr r \<and> fgt (final_score r) (lit (15/10)) \<and>
           filter fst (recommendation_rules probs modifiers) = []"
  proof -
    obtain s where s: "final_score r = round4 s"
      "recommendations r = recommendations_spec probs modifiers s"
      using c h by blast
    have "fgt (round4 s) (Fin (3/2))" using h s(1) by (simp add: lit_def rnd_vals)
    then have "fgt s (Fin (3/2))" using round4_le_three_halves by blast
    then show ?thesis using h s(2) by (simp add: recommendations_spec_def lit_def rnd_vals)
  qed
  show ?thesis using a b t1 t2 c d by blast
qed

text \<open>
  Two calls that return: one on which all eight rules fire (the thirteenth post of the day,
  out of network, 30 hours old, with block and not_interested probabilities), and one on
  which none does and the score is 2.2.
\<close>

theorem recommendations_follow_rules_witness:
  "(\<exists>r final.
      calculate_score
        (default_probs\<lparr>not_interested := lit (2/10), block := lit (1/10)\<rparr>)
        (default_modifiers\<lparr>is_out_of_network := True, post_position := 13, post_age_hours := lit 30\<rparr>) = Inr r \<and>
      final_score r = round4 final \<and>
      recommendations r
        = recommendations_spec
            (default_probs\<lparr>not_interested := lit (2/10), block := lit (1/10)\<rparr>)
            (default_modifiers\<lparr>is_out_of_network := True, post_position := 13, post_age_hours := lit 30\<rparr>)
            final) \<and>
   (\<exists>r final.
      calculate_score
        (default_probs\<lparr>favorite := lit 1, reply := lit 1, share := lit 1\<rparr>)
        (default_modifiers\<lparr>has_video := True\<rparr>) = Inr r \<and>
      final_score r = round4 final \<and>
      recommendations r
        = recommendations_spec
            (default_probs\<lparr>favorite := lit 1, reply := lit 1, share := lit 1\<rparr>)
            (default_modifiers\<lparr>has_video := True\<rparr>)
            final) \<and>
   (\<exists>r. calculate_score
          (default_probs\<lparr>not_interested := lit (2/10), block := lit (1/10)\<rparr>)
          (default_modifiers\<lparr>is_out_of_network := True, post_position := 13, post_age_hours := lit 30\<rparr>) = Inr r \<and>
        recommendations r =
          [''WARNING: High negative signal probability. Review content for controversial elements.'',
            ''Consider making content more engaging or relevant to your audience.'',
            ''You're on post #13 today. Consider spacing posts for better reach.'',
            ''Out-of-network content receives ~30% penalty. Build your follower base.'',
            ''Post is aging. Content has best reach within first 24 hours.'',
            ''Consider adding native video for additional algorithmic boost.'',
            ''Low predicted likes. Focus on creating more likeable content (primary metric).'',
            ''Low shareability. Create content worth sharing privately.''] \<and>
        (\<exists>final. final_score r = round4 final \<and>
           recommendations r
             = recommendations_spec
                 (default_probs\<lparr>not_interested := lit (2/10), block := lit (1/10)\<rparr>)
                 (default_modifiers\<lparr>is_out_of_network := True, post_position := 13, post_age_hours := lit 30\<rparr>)
                 final)) \<and>
   (\<exists>r. calculate_score
          (default_probs\<lparr>favorite := lit 1, reply := lit 1, share := lit 1\<rparr>)
          (default_modifiers\<lparr>has_video := True\<rparr>) = Inr r \<and>
        recommendations r = [''Content is well-optimized! Continue this approach.''])"
proof -
  let ?pa = "default_probs\<lparr>not_interested := lit (2/10), block := lit (1/10)\<rparr>"
  let ?ma = "default_modifiers\<lparr>is_out_of_network := True, post_position := 13, post_age_hours := lit 30\<rparr>"
  let ?ra = "\<lparr>final_score = lit (- (71/10000)), positive_score = lit 0, negative_score = lit (27/100),
           diversity_multiplier = lit (1/10), oon_multiplier = lit (7/10), age_multiplier = lit (375/1000),
           video_bonus_applied = False,
           interpretation_str = ''LOW REACH: Content likely to be suppressed significantly'',
           recommendations =
             [''WARNING: High negative signal probability. Review content for controversial elements.'',
              ''Consider making content more engaging or relevant to your audience.'',
              ''You're on post #13 today. Consider spacing posts for better reach.'',
              ''Out-of-network content receives ~30% penalty. Build your follower base.'',
              ''Post is aging. Content has best reach within first 24 hours.'',
              ''Consider adding native video for additional algorithmic boost.'',
              ''Low predicted likes. Focus on creating more likeable content (primary metric).'',
              ''Low shareability. Create content worth sharing privately.'']\<rparr>"
  let ?po = "default_probs\<lparr>favorite := lit 1, reply := lit 1, share := lit 1\<rparr>"
  let ?mo = "default_modifiers\<lparr>has_video := True\<rparr>"
  let ?ro = "\<lparr>final_score = lit (22/10), positive_score = lit (22/10), negative_score = lit 0,
           diversity_multiplier = lit 1, oon_multiplier = lit 1, age_multiplier = lit 1,
           video_bonus_applied = False,
           interpretation_str = ''VIRAL POTENTIAL: Content has maximum algorithmic support'',
           recommendations =
             [''Content is well-optimized! Continue this approach.'']\<rparr>"
  have ea: "calculate_score ?pa ?ma = Inr ?ra" by (rule all_rules_score)
  have eo: "calculate_score ?po ?mo = Inr ?ro" by (rule optimized_score)
  have "post_position ?ma \<le> 2 ^ 1023 \<longrightarrow>
      (\<exists>r final. calculate_score ?pa ?ma = Inr r \<and> final_score r = round4 final \<and>
                 recommendations r = recommendations_spec ?pa ?ma final)"
    using recommendations_follow_rules[of ?pa ?ma "Fin 0" ?ra] by blast
  moreover have "post_position ?ma \<le> 2 ^ 1023" by (simp add: default_modifiers_def)
  ultimately have W1: "\<exists>r final. calculate_score ?pa ?ma = Inr r \<and> final_score r = round4 final \<and>
                 recommendations r = recommendations_spec ?pa ?ma final"
    by (rule mp)
  have "(\<exists>d. calculate_diversity_multiplier (post_position ?mo) = Inr d) \<longrightarrow>
      (\<exists>r final. calculate_score ?po ?mo = Inr r \<and> final_score r = round4 final \<and>
                 recommendations r = recommendations_spec ?po ?mo final)"
    using recommendations_follow_rules[of ?po ?mo "Fin 0" ?ro] by blast
  moreover have "\<exists>d. calculate_diversity_multiplier (post_position ?mo) = Inr d"
    by (simp add: default_modifiers_def calculate_diversity_multiplier_def)
  ultimately have W2: "\<exists>r final. calculate_score ?po ?mo = Inr r \<and> final_score r = round4 final \<and>
                 recommendations r = recommendations_spec ?po ?mo final"
    by (rule mp)
  have "calculate_score ?pa ?ma = Inr ?ra \<longrightarrow>
      (\<exists>final. final_score ?ra = round4 final \<and>
               recommendations ?ra = recommendations_spec ?pa ?ma final)"
    using recommendations_follow_rules[of ?pa ?ma "Fin 0" ?ra] by blast
  then have A: "\<exists>final. final_score ?ra = round4 final \<and>
               recommendations ?ra = recommendations_spec ?pa ?ma final"
    using ea by (rule mp)
  have "recommendations ?ra =
          [''WARNING: High negative signal probability. Review content for controversial elements.'',
            ''Consider making content more engaging or relevant to your audience.'',
            ''You're on post #13 today. Consider spacing posts for better reach.'',
            ''Out-of-network content receives ~30% penalty. Build your follower base.'',
            ''Post is aging. Content has best reach within first 24 hours.'',
            ''Consider adding native video for additional algorithmic boost.'',
            ''Low predicted likes. Focus on creating more likeable content (primary metric).'',
            ''Low shareability. Create content worth sharing privately.'']"
    by simp
  then have W3: "\<exists>r. calculate_score ?pa ?ma = Inr r \<and>
        recommendations r =
          [''WARNING: High negative signal probability. Review content for controversial elements.'',
            ''Consider making content more engaging or relevant to your audience.'',
            ''You're on post #13 today. Consider spacing posts for better reach.'',
            ''Out-of-network content receives ~30% penalty. Build your follower base.'',
            ''Post is aging. Content has best reach within first 24 hours.'',
            ''Consider adding native video for additional algorithmic boost.'',
            ''Low predicted likes. Focus on creating more likeable content (primary metric).'',
            ''Low shareability. Create content worth sharing privately.''] \<and>
        (\<exists>final. final_score r = round4 final \<and>
           recommendations r = recommendations_spec ?pa ?ma final)"
    using ea A by blast
  have "fgt (final_score ?ro) (lit (15/10))" by (simp add: fgt_def lit_def rnd_vals)
  moreover have "filter fst (recommendation_rules ?po ?mo) = []"
    by (simp add: recommendation_rules_def default_probs_def default_modifiers_def
          fgt_def feq_def lit_def rnd_vals)
  ultimately have ho: "calculate_score ?po ?mo = Inr ?ro \<and> fgt (final_score ?ro) (lit (15/10)) \<and>
      filter fst (recommendation_rules ?po ?mo) = []"
    using eo by blast
  have "calculate_score ?po ?mo = Inr ?ro \<and> fgt (final_score ?ro) (lit (15/10)) \<and>
      filter fst (recommendation_rules ?po ?mo) = [] \<longrightarrow>
      recommendations ?ro = [''Content is well-optimized! Continue this approach.'']"
    using recommendations_follow_rules[of ?po ?mo "Fin 0" ?ro] by blast
  then have "recommendations ?ro = [''Content is well-optimized! Continue this approach.'']"
    using ho by (rule mp)
  then have W4: "\<exists>r. calculate_score ?po ?mo = Inr r \<and>
        recommendations r = [''Content is well-optimized! Continue this approach.'']"
    using eo by blast
  show ?thesis using W1 W2 W3 W4 by blast
qed

section \<open>Content analyzer: normalized probabilities\<close>

text \<open>
  The analysis never raises: the two counts converted to floats are at most 5. Its last step
  clamps each of the 17 fields.
\<close>

lemma clamp_unit_bounds: "fle (Fin 0) (clamp_unit x) \<and> fle (clamp_unit x) (Fin 1)"
  by (cases x) (simp_all add: clamp_unit_def pymax_def pymin_def fgt_def fle_def feq_def lit_def rnd_vals)

lemma float_of_int_small:
  assumes "n \<le> 5"
  shows "float_of_int (int n) = Inr (Fin (of_nat n))"
proof -
  from assms consider "n = 0" | "n = 1" | "n = 2" | "n = 3" | "n = 4" | "n = 5" by linarith
  then show ?thesis by cases (simp_all add: float_of_int_def rnd_vals)
qed

lemma count_le_five:
  "length (filter P POSITIVE_SENTIMENT) \<le> 5" "length (filter P NEGATIVE_TRIGGERS) \<le> 5"
proof -
  have "length (filter P POSITIVE_SENTIMENT) \<le> length POSITIVE_SENTIMENT" by (rule length_filter_le)
  then show "length (filter P POSITIVE_SENTIMENT) \<le> 5" by (simp add: POSITIVE_SENTIMENT_def)
  have "length (filter P NEGATIVE_TRIGGERS) \<le> length NEGATIVE_TRIGGERS" by (rule length_filter_le)
  then show "length (filter P NEGATIVE_TRIGGERS) \<le> 5" by (simp add: NEGATIVE_TRIGGERS_def)
qed

lemma analyze_text_total: "\<exists>probs modifiers. analyze_text text = Inr (normalize probs, modifiers)"
proof -
  have p: "float_of_int (int (length (filter (\<lambda>p. re_search p (lower text)) POSITIVE_SENTIMENT)))
             = Inr (Fin (of_nat (length (filter (\<lambda>p. re_search p (lower text)) POSITIVE_SENTIMENT))))"
    by (rule float_of_int_small) (rule count_le_five)
  have n: "float_of_int (int (length (filter (\<lambda>p. re_search p (lower text)) NEGATIVE_TRIGGERS)))
             = Inr (Fin (of_nat (length (filter (\<lambda>p. re_search p (lower text)) NEGATIVE_TRIGGERS))))"
    by (rule float_of_int_small) (rule count_le_five)
  show ?thesis
    unfolding analyze_text_def
    by (simp only: Let_def p n sum.case split_beta) blast
qed

lemma hot_take_r1 [rnd_vals]: "rnd (5404319552844595 / 18014398509481984) = Fin (5404319552844595 / 18014398509481984)"
  using rnd_cert[of "5404319552844595 / 18014398509481984" "-2" 5404319552844595] by simp

lemma hot_take_r2 [rnd_vals]: "rnd (17293822569102705 / 144115188075855872) = Fin (1080863910568919 / 9007199254740992)"
  using rnd_cert_tie[of "17293822569102705 / 144115188075855872" "-4" 8646911284551352] by simp

lemma hot_take_r3 [rnd_vals]: "rnd (3602879701896397 / 72057594037927936) = Fin (3602879701896397 / 72057594037927936)"
  using rnd_cert[of "3602879701896397 / 72057594037927936" "-5" 7205759403792794] by simp

lemma hot_take_r4 [rnd_vals]: "rnd (5764607523034235 / 288230376151711744) = Fin (5764607523034235 / 288230376151711744)"
  using rnd_cert[of "5764607523034235 / 288230376151711744" "-6" 5764607523034235] by simp

lemma hot_take_r5 [rnd_vals]: "rnd (5764607523034235 / 144115188075855872) = Fin (5764607523034235 / 144115188075855872)"
  using rnd_cert[of "5764607523034235 / 144115188075855872" "-5" 5764607523034235] by simp

lemma hot_take_r6 [rnd_vals]: "rnd (1080863910568919 / 18014398509481984) = Fin (1080863910568919 / 18014398509481984)"
  using rnd_cert[of "1080863910568919 / 18014398509481984" "-5" 8646911284551352] by simp

lemma hot_take_r7 [rnd_vals]: "rnd (23058430092136939 / 288230376151711744) = Fin (5764607523034235 / 72057594037927936)"
  using rnd_cert[of "23058430092136939 / 288230376151711744" "-4" 5764607523034235] by simp

lemma hot_take_r8 [rnd_vals]: "rnd (3602879701896397 / 36028797018963968) = Fin (3602879701896397 / 36028797018963968)"
  using rnd_cert[of "3602879701896397 / 36028797018963968" "-4" 7205759403792794] by simp

lemma hot_take_r9 [rnd_vals]: "rnd (5404319552844595 / 36028797018963968) = Fin (5404319552844595 / 36028797018963968)"
  using rnd_cert[of "5404319552844595 / 36028797018963968" "-3" 5404319552844595] by simp

lemma hot_take_r10 [rnd_vals]: "rnd (7500000000000001 / 50000000000000000) = Fin (1351079888211149 / 9007199254740992)"
  using rnd_cert[of "7500000000000001 / 50000000000000000" "-3" 5404319552844596] by simp

lemma hot_take_text:
  "analyze_text (ustr ''hot take: this is terrible, fight me'') =
     Inr (\<lparr>favorite = lit (3/10), reply = lit (25/100), repost = lit (8/100),
             quote = lit (12/100), follow_author = lit 0, video_view = lit 0,
             profile_click = lit (12/100), share = lit (5/100), dm_share = lit (2/100),
             link_copy = lit 0, dwell_time = lit (15/100), photo_expand = lit 0,
             content_click = lit 0,
             not_interested = lit (15000000000000002/100000000000000000),
             block = lit (4/100), mute = lit (8/100), report = lit 0\<rparr>,
          \<lparr>has_video = False, is_out_of_network = False, post_position = 1,
           post_age_hours = lit 0, has_image = False, has_link = False, is_reply = False,
           is_quote = False\<rparr>)"
  by (simp add: analyze_text_def normalize_def clamp_unit_def any_in_def re_search_def
        QUESTION_PATTERNS_def CALL_TO_ACTION_def CONTROVERSY_MARKERS_def POSITIVE_SENTIMENT_def
        NEGATIVE_TRIGGERS_def ustr_def lower_def lower_char_def split_def isspace_def
        default_probs_def default_modifiers_def float_of_int_def fsub_def pymin_def pymax_def
        fgt_def Let_def lit_def rnd_neg rnd_vals)

text \<open>
  Claim C7. For every input text, each of the 17 probability fields returned by
  \<^verbatim>\<open>analyze_text\<close> lies between 0.0 and 1.0. For the text
  \<^verbatim>\<open>hot take: this is terrible, fight me\<close> the controversy rule and the negative-trigger
  rule (two triggers) both contribute to \<^verbatim>\<open>not_interested\<close> and \<^verbatim>\<open>mute\<close>: the
  contributions are added, \<^verbatim>\<open>0.0 + 0.05 + min(0.15, 2 * 0.05)\<close> and
  \<^verbatim>\<open>0.0 + 0.02 + min(0.08, 2 * 0.03)\<close>, and then clamped, which gives
  \<^verbatim>\<open>0.15000000000000002\<close> and \<^verbatim>\<open>0.08\<close>.
\<close>

theorem analyze_text_unit_interval:
  "(\<exists>probs modifiers.
      analyze_text text = Inr (probs, modifiers) \<and> length (to_dict probs) = 17 \<and>
      list_all (\<lambda>v. fle (Fin 0) v \<and> fle v (Fin 1)) (map snd (to_dict probs))) \<and>
   analyze_text (ustr ''hot take: this is terrible, fight me'') =
     Inr (\<lparr>favorite = lit (3/10), reply = lit (25/100), repost = lit (8/100),
             quote = lit (12/100), follow_author = lit 0, video_view = lit 0,
             profile_click = lit (12/100), share = lit (5/100), dm_share = lit (2/100),
             link_copy = lit 0, dwell_time = lit (15/100), photo_expand = lit 0,
             content_click = lit 0,
             not_interested = lit (15000000000000002/100000000000000000),
             block = lit (4/100), mute = lit (8/100), report = lit 0\<rparr>,
          \<lparr>has_video = False, is_out_of_network = False, post_position = 1,
           post_age_hours = lit 0, has_image = False, has_link = False, is_reply = False,
           is_quote = False\<rparr>) \<and>
   clamp_unit (fadd (fadd (lit 0) (lit (5/100)))
                    (pymin (lit (15/100)) (fmul (Fin 2) (lit (5/100)))))
     = lit (15000000000000002/100000000000000000) \<and>
   clamp_unit (fadd (fadd (lit 0) (lit (2/100)))
                    (pymin (lit (8/100)) (fmul (Fin 2) (lit (3/100)))))
     = lit (8/100)"
proof -
  obtain p m where "analyze_text text = Inr (normalize p, m)"
    using analyze_text_total by blast
  moreover have "length (to_dict (normalize p)) = 17" by (simp add: to_dict_def)
  moreover have "list_all (\<lambda>v. fle (Fin 0) v \<and> fle v (Fin 1)) (map snd (to_dict (normalize p)))"
    by (simp add: to_dict_def normalize_def clamp_unit_bounds)
  ultimately have a: "\<exists>probs modifiers.
      analyze_text text = Inr (probs, modifiers) \<and> length (to_dict probs) = 17 \<and>
      list_all (\<lambda>v. fle (Fin 0) v \<and> fle v (Fin 1)) (map snd (to_dict probs))"
    by blast
  have b: "clamp_unit (fadd (fadd (lit 0) (lit (5/100)))
                    (pymin (lit (15/100)) (fmul (Fin 2) (lit (5/100)))))
     = lit (15000000000000002/100000000000000000)"
    by (simp add: clamp_unit_def pymin_def pymax_def fgt_def lit_def rnd_vals)
  have c: "clamp_unit (fadd (fadd (lit 0) (lit (2/100)))
                    (pymin (lit (8/100)) (fmul (Fin 2) (lit (3/100)))))
     = lit (8/100)"
    by (simp add: clamp_unit_def pymin_def pymax_def fgt_def lit_def rnd_vals)
  show ?thesis using a b c hot_take_text by blast
qed

section \<open>Batch analyzer: the summary of a batch\<close>

subsection \<open>The loop over the posts\<close>





subsection \<open>Two posts from one author\<close>




lemma post1_r1 [rnd_vals]: "rnd (7566047373982433 / 18014398509481984) = Fin (7566047373982433 / 18014398509481984)"
  using rnd_cert[of "7566047373982433 / 18014398509481984" "-2" 7566047373982433] by simp

lemma post1_r2 [rnd_vals]: "rnd (17293822569102705 / 288230376151711744) = Fin (1080863910568919 / 18014398509481984)"
  using rnd_cert_tie[of "17293822569102705 / 288230376151711744" "-5" 8646911284551352] by simp

lemma post1_r3 [rnd_vals]: "rnd (1080863910568919 / 2251799813685248) = Fin (1080863910568919 / 2251799813685248)"
  using rnd_cert[of "1080863910568919 / 2251799813685248" "-2" 8646911284551352] by simp

lemma post1_r4 [rnd_vals]: "rnd (18173039004871895925237601244545 / 649037107316853453566312041152512) = Fin (1008806316530991 / 36028797018963968)"
  using rnd_cert[of "18173039004871895925237601244545 / 649037107316853453566312041152512" "-6" 8070450532247928] by simp

lemma post1_r5 [rnd_vals]: "rnd (18302628885633695 / 36028797018963968) = Fin (571957152676053 / 1125899906842624)"
  using rnd_cert[of "18302628885633695 / 36028797018963968" "-1" 4575657221408424] by simp

lemma post1_r6 [rnd_vals]: "rnd (571957152676053 / 1125899906842624) = Fin (571957152676053 / 1125899906842624)"
  using rnd_cert[of "571957152676053 / 1125899906842624" "-1" 4575657221408424] by simp

lemma post1_r7 [rnd_vals]: "rnd (10232178353385767 / 18014398509481984) = Fin (1279022294173221 / 2251799813685248)"
  using rnd_cert_tie[of "10232178353385767 / 18014398509481984" "-1" 5116089176692884] by simp

lemma post1_r8 [rnd_vals]: "rnd (12980742146337070512478121581609 / 649037107316853453566312041152512) = Fin (1441151880758559 / 72057594037927936)"
  using rnd_cert[of "12980742146337070512478121581609 / 649037107316853453566312041152512" "-6" 5764607523034236] by simp

lemma post1_r9 [rnd_vals]: "rnd (42369865294301631 / 72057594037927936) = Fin (662029145223463 / 1125899906842624)"
  using rnd_cert[of "42369865294301631 / 72057594037927936" "-1" 5296233161787704] by simp

lemma post1_r10 [rnd_vals]: "rnd (5764607523034235 / 576460752303423488) = Fin (5764607523034235 / 576460752303423488)"
  using rnd_cert[of "5764607523034235 / 576460752303423488" "-7" 5764607523034235] by simp

lemma post1_r11 [rnd_vals]: "rnd (344723529877447291 / 576460752303423488) = Fin (2693152577167557 / 4503599627370496)"
  using rnd_cert[of "344723529877447291 / 576460752303423488" "-1" 5386305154335114] by simp

lemma post1_r12 [rnd_vals]: "rnd (2693152577167557 / 4503599627370496) = Fin (2693152577167557 / 4503599627370496)"
  using rnd_cert[of "2693152577167557 / 4503599627370496" "-1" 5386305154335114] by simp

lemma post1_r13 [rnd_vals]: "rnd (29206669829258403248756220714025 / 649037107316853453566312041152512) = Fin (3242591731706757 / 72057594037927936)"
  using rnd_cert[of "29206669829258403248756220714025 / 649037107316853453566312041152512" "-5" 6485183463413514] by simp

lemma post1_r14 [rnd_vals]: "rnd (46333032966387669 / 72057594037927936) = Fin (5791629120798459 / 9007199254740992)"
  using rnd_cert[of "46333032966387669 / 72057594037927936" "-1" 5791629120798459] by simp

lemma post1_r15 [rnd_vals]: "rnd (5791629120798459 / 9007199254740992) = Fin (5791629120798459 / 9007199254740992)"
  using rnd_cert[of "5791629120798459 / 9007199254740992" "-1" 5791629120798459] by simp

lemma post1_r16 [rnd_vals]: "rnd (643 / 1000) = Fin (2895814560399229 / 4503599627370496)"
  using rnd_cert[of "643 / 1000" "-1" 5791629120798458] by simp

lemma post1_h1 [rhe_vals]: "round_half_even (3619768200499036875 / 562949953421312) = 6430"
  using rhe_cert[of "3619768200499036875 / 562949953421312" "6430"] by simp




lemma post2_text_r1 [rnd_vals]: "rnd (25220157913274777 / 72057594037927936) = Fin (3152519739159347 / 9007199254740992)"
  using rnd_cert[of "25220157913274777 / 72057594037927936" "-2" 6305039478318694] by simp


lemma post2_r1 [rnd_vals]: "rnd (3152519739159347 / 9007199254740992) = Fin (3152519739159347 / 9007199254740992)"
  using rnd_cert[of "3152519739159347 / 9007199254740992" "-2" 6305039478318694] by simp

lemma post2_r2 [rnd_vals]: "rnd (2116691824864133 / 4503599627370496) = Fin (2116691824864133 / 4503599627370496)"
  using rnd_cert[of "2116691824864133 / 4503599627370496" "-2" 8466767299456532] by simp

lemma post2_r3 [rnd_vals]: "rnd (9547631210025451 / 18014398509481984) = Fin (2386907802506363 / 4503599627370496)"
  using rnd_cert_tie[of "9547631210025451 / 18014398509481984" "-1" 4773815605012726] by simp

lemma post2_r4 [rnd_vals]: "rnd (20104068736581895 / 36028797018963968) = Fin (2513008592072737 / 4503599627370496)"
  using rnd_cert[of "20104068736581895 / 36028797018963968" "-1" 5026017184145474] by simp

lemma post2_r5 [rnd_vals]: "rnd (2513008592072737 / 4503599627370496) = Fin (2513008592072737 / 4503599627370496)"
  using rnd_cert[of "2513008592072737 / 4503599627370496" "-1" 5026017184145474] by simp

lemma post2_r6 [rnd_vals]: "rnd (11132898278859867 / 18014398509481984) = Fin (2783224569714967 / 4503599627370496)"
  using rnd_cert_tie[of "11132898278859867 / 18014398509481984" "-1" 5566449139429934] by simp

lemma post2_r7 [rnd_vals]: "rnd (45972744996198031 / 72057594037927936) = Fin (2873296562262377 / 4503599627370496)"
  using rnd_cert[of "45972744996198031 / 72057594037927936" "-1" 5746593124524754] by simp

lemma post2_r8 [rnd_vals]: "rnd (373546567492618491 / 576460752303423488) = Fin (1459166279268041 / 2251799813685248)"
  using rnd_cert[of "373546567492618491 / 576460752303423488" "-1" 5836665117072164] by simp

lemma post2_r9 [rnd_vals]: "rnd (1459166279268041 / 2251799813685248) = Fin (1459166279268041 / 2251799813685248)"
  using rnd_cert[of "1459166279268041 / 2251799813685248" "-1" 5836665117072164] by simp

lemma post2_r10 [rnd_vals]: "rnd (49935912668284069 / 72057594037927936) = Fin (6241989083535509 / 9007199254740992)"
  using rnd_cert[of "49935912668284069 / 72057594037927936" "-1" 6241989083535509] by simp

lemma post2_r11 [rnd_vals]: "rnd (6241989083535509 / 9007199254740992) = Fin (6241989083535509 / 9007199254740992)"
  using rnd_cert[of "6241989083535509 / 9007199254740992" "-1" 6241989083535509] by simp

lemma post2_r12 [rnd_vals]: "rnd (50600555479190201138465503603537 / 162259276829213363391578010288128) = Fin (2808895087590979 / 9007199254740992)"
  using rnd_cert[of "50600555479190201138465503603537 / 162259276829213363391578010288128" "-2" 5617790175181958] by simp

lemma post2_r13 [rnd_vals]: "rnd (2808895087590979 / 9007199254740992) = Fin (2808895087590979 / 9007199254740992)"
  using rnd_cert[of "2808895087590979 / 9007199254740992" "-2" 5617790175181958] by simp

lemma post2_r14 [rnd_vals]: "rnd (3119 / 10000) = Fin (5618690895107431 / 18014398509481984)"
  using rnd_cert[of "3119 / 10000" "-2" 5618690895107431] by simp

lemma post2_r15 [rnd_vals]: "rnd (693 / 1000) = Fin (6241989083535507 / 9007199254740992)"
  using rnd_cert[of "693 / 1000" "-1" 6241989083535507] by simp

lemma post2_h1 [rhe_vals]: "round_half_even (1755559429744361875 / 562949953421312) = 3119"
  using rhe_cert[of "1755559429744361875 / 562949953421312" "3119"] by simp

lemma post2_h2 [rhe_vals]: "round_half_even (3901243177209693125 / 562949953421312) = 6930"
  using rhe_cert[of "3901243177209693125 / 562949953421312" "6930"] by simp

lemma post2_h3 [rhe_vals]: "round_half_even (5066549580791808125 / 1125899906842624) = 4500"
  using rhe_cert[of "5066549580791808125 / 1125899906842624" "4500"] by simp




lemma batch_r1 [rnd_vals]: "rnd (2895814560399229 / 4503599627370496) = Fin (2895814560399229 / 4503599627370496)"
  using rnd_cert[of "2895814560399229 / 4503599627370496" "-1" 5791629120798458] by simp

lemma batch_r2 [rnd_vals]: "rnd (17201949136704347 / 18014398509481984) = Fin (4300487284176087 / 4503599627370496)"
  using rnd_cert_tie[of "17201949136704347 / 18014398509481984" "-1" 8600974568352174] by simp

lemma batch_r3 [rnd_vals]: "rnd (4300487284176087 / 9007199254740992) = Fin (4300487284176087 / 9007199254740992)"
  using rnd_cert[of "4300487284176087 / 9007199254740992" "-2" 8600974568352174] by simp

lemma batch_r4 [rnd_vals]: "rnd (191 / 400) = Fin (8601875288277647 / 18014398509481984)"
  using rnd_cert[of "191 / 400" "-2" 8601875288277647] by simp

lemma batch_h1 [rhe_vals]: "round_half_even (2687804552610054375 / 562949953421312) = 4775"
  using rhe_cert[of "2687804552610054375 / 562949953421312" "4775"] by simp

lemma batch_h2 [rhe_vals]: "round_half_even (1809884100249518125 / 281474976710656) = 6430"
  using rhe_cert[of "1809884100249518125 / 281474976710656" "6430"] by simp

lemma batch_h3 [rhe_vals]: "round_half_even (3511681809442144375 / 1125899906842624) = 3119"
  using rhe_cert[of "3511681809442144375 / 1125899906842624" "3119"] by simp


subsection \<open>The average\<close>



end
